theory Spec2Isabelle
  imports Complex_Main
begin

section \<open>Tensors and the framework operations the notebooks call\<close>

text \<open>
  The notebooks are glue code over a tensor library. A tensor is modelled the way the
  library stores it: a shape and the elements in row-major order. Element values are
  real numbers (the idealisation of the library's floating-point numbers), class labels
  are natural numbers, comparison results are booleans. Every exception the glue code
  can meet is a value of \<open>error\<close>; a function that can raise returns \<open>error + 'a\<close>.
\<close>

datatype error =
    RuntimeError
  | IndexError
  | KeyError string
  | TypeError
  | AttributeError string
  | FileNotFoundError
  | ValueError
  | ZeroDivisionError

record 'a tensor =
  shape :: "nat list"
  data :: "'a list"

definition wf_tensor :: "'a tensor \<Rightarrow> bool" where
  "wf_tensor t = (length (data t) = prod_list (shape t))"

text \<open>\<open>t.view(*s)\<close>: the same elements under another shape; raises when the element counts differ.\<close>

definition view :: "'a tensor \<Rightarrow> nat list \<Rightarrow> error + 'a tensor" where
  "view t s =
     (if prod_list s = length (data t) then Inr \<lparr>shape = s, data = data t\<rparr>
      else Inl RuntimeError)"

text \<open>
  The elements along dimension 1 that belong to result position \<open>j\<close>, for a tensor of
  shape \<open>b # C # rest\<close> with \<open>inner = prod_list rest\<close>. For a matrix (\<open>inner = 1\<close>) this
  is row \<open>j\<close>.
\<close>

definition lane :: "'a list \<Rightarrow> nat \<Rightarrow> nat \<Rightarrow> nat \<Rightarrow> 'a list" where
  "lane xs C inner j =
     map (\<lambda>c. xs ! (((j div inner) * C + c) * inner + j mod inner)) [0..<C]"

fun argmax_from :: "nat \<times> real \<Rightarrow> nat \<Rightarrow> real list \<Rightarrow> nat \<times> real" where
  "argmax_from best i [] = best"
| "argmax_from best i (y # ys) =
     argmax_from (if snd best < y then (i, y) else best) (Suc i) ys"

text \<open>
  Index and value of the largest entry (the first one among equals). The empty list is
  never passed: \<open>topk\<close> raises before.
\<close>

fun top1 :: "real list \<Rightarrow> nat \<times> real" where
  "top1 [] = (0, 0)"
| "top1 (x # xs) = argmax_from (0, x) 1 xs"

text \<open>\<open>t.topk(1, dim=1)\<close>: the pair (values, indices), both of shape \<open>b # 1 # rest\<close>.\<close>

definition topk :: "real tensor \<Rightarrow> error + (real tensor \<times> nat tensor)" where
  "topk t =
     (case shape t of
        b # C # rest \<Rightarrow>
          if C = 0 then Inl RuntimeError
          else
            let inner = prod_list rest;
                tops = map (\<lambda>j. top1 (lane (data t) C inner j)) [0..<b * inner]
            in Inr (\<lparr>shape = b # 1 # rest, data = map snd tops\<rparr>,
                    \<lparr>shape = b # 1 # rest, data = map fst tops\<rparr>)
      | _ \<Rightarrow> Inl IndexError)"

text \<open>
  Broadcasting of two shapes, read from the last dimension backwards: two sizes are
  compatible when they are equal or one of them is 1; a missing dimension counts as 1.
\<close>

fun broadcast_rev :: "nat list \<Rightarrow> nat list \<Rightarrow> nat list option" where
  "broadcast_rev [] ys = Some ys"
| "broadcast_rev (x # xs) [] = Some (x # xs)"
| "broadcast_rev (x # xs) (y # ys) =
     (if x = y \<or> y = 1 then map_option ((#) x) (broadcast_rev xs ys)
      else if x = 1 then map_option ((#) y) (broadcast_rev xs ys)
      else None)"

definition broadcast_shapes :: "nat list \<Rightarrow> nat list \<Rightarrow> nat list option" where
  "broadcast_shapes s1 s2 = map_option rev (broadcast_rev (rev s1) (rev s2))"

text \<open>All multi-indices of a shape, in row-major order.\<close>

fun all_idx :: "nat list \<Rightarrow> nat list list" where
  "all_idx [] = [[]]"
| "all_idx (n # ns) = concat (map (\<lambda>i. map ((#) i) (all_idx ns)) [0..<n])"

text \<open>
  Position in the row-major data of a tensor of shape \<open>s\<close> that a multi-index of the
  broadcast result reads: leading result dimensions the tensor lacks are dropped, and a
  dimension of size 1 is read at index 0.
\<close>

definition offset :: "nat list \<Rightarrow> nat list \<Rightarrow> nat" where
  "offset s idx =
     foldl (\<lambda>acc (n, i). acc * n + (if n = 1 then 0 else i)) 0
       (zip s (drop (length idx - length s) idx))"

text \<open>\<open>a == b\<close> on tensors: elementwise on the broadcast shape.\<close>

definition tensor_eq :: "'a tensor \<Rightarrow> 'a tensor \<Rightarrow> error + bool tensor" where
  "tensor_eq a b =
     (case broadcast_shapes (shape a) (shape b) of
        None \<Rightarrow> Inl RuntimeError
      | Some r \<Rightarrow>
          Inr \<lparr>shape = r,
               data = map (\<lambda>idx. data a ! offset (shape a) idx = data b ! offset (shape b) idx)
                        (all_idx r)\<rparr>)"

text \<open>\<open>t.type(torch.FloatTensor)\<close> on a boolean tensor: True is 1, False is 0.\<close>

definition type_FloatTensor :: "bool tensor \<Rightarrow> real tensor" where
  "type_FloatTensor t = \<lparr>shape = shape t, data = map (\<lambda>b. if b then 1 else 0) (data t)\<rparr>"

text \<open>
  \<open>torch.mean\<close>: the sum of all elements divided by their number. On a tensor without
  elements the library returns nan, written \<open>None\<close> here.
\<close>

definition torch_mean :: "real tensor \<Rightarrow> real option" where
  "torch_mean t =
     (if data t = [] then None else Some (sum_list (data t) / real (length (data t))))"

text \<open>\<open>torch.exp\<close>, elementwise.\<close>

definition torch_exp :: "real tensor \<Rightarrow> real tensor" where
  "torch_exp t = \<lparr>shape = shape t, data = map exp (data t)\<rparr>"

section \<open>Manual accuracy of one batch (Part 5, cells 4 to 6)\<close>

text \<open>
  \<^verbatim>\<open>top_p, top_class = ps.topk(1, dim=1)\<close>
  \<^verbatim>\<open>equals = top_class == labels.view(*top_class.shape)\<close>
\<close>

definition equals :: "real tensor \<Rightarrow> nat tensor \<Rightarrow> error + bool tensor" where
  "equals ps labels =
     (case topk ps of
        Inl e \<Rightarrow> Inl e
      | Inr (top_p, top_cls) \<Rightarrow>
          (case view labels (shape top_cls) of
             Inl e \<Rightarrow> Inl e
           | Inr lv \<Rightarrow> tensor_eq top_cls lv))"

text \<open>\<^verbatim>\<open>accuracy = torch.mean(equals.type(torch.FloatTensor))\<close>\<close>

definition accuracy :: "real tensor \<Rightarrow> nat tensor \<Rightarrow> error + real option" where
  "accuracy ps labels =
     (case equals ps labels of
        Inl e \<Rightarrow> Inl e
      | Inr eq \<Rightarrow> Inr (torch_mean (type_FloatTensor eq)))"

text \<open>
  The comparison the notebook warns against, \<^verbatim>\<open>top_class == labels\<close> without the
  \<open>view\<close>.
\<close>

definition equals_without_view :: "real tensor \<Rightarrow> nat tensor \<Rightarrow> error + bool tensor" where
  "equals_without_view ps labels =
     (case topk ps of
        Inl e \<Rightarrow> Inl e
      | Inr (top_p, top_cls) \<Rightarrow> tensor_eq top_cls labels)"

text \<open>
  What the accuracy is meant to count: example \<open>i\<close> of a batch of \<open>C\<close>-class outputs is
  classified correctly when the position of the largest entry of its row is its label.
\<close>

definition row :: "'a tensor \<Rightarrow> nat \<Rightarrow> 'a list" where
  "row t i = (let C = shape t ! 1 in take C (drop (i * C) (data t)))"

definition predicted_class :: "real tensor \<Rightarrow> nat \<Rightarrow> nat" where
  "predicted_class ps i = fst (top1 (row ps i))"

definition n_correct :: "real tensor \<Rightarrow> nat tensor \<Rightarrow> nat" where
  "n_correct ps labels =
     length (filter (\<lambda>i. predicted_class ps i = data labels ! i) [0..<hd (shape ps)])"

section \<open>Floating-point results and exceptions\<close>

text \<open>
  A loss or an accuracy is a number or nan; nan is \<open>None\<close>. Sums and quotients of such
  values propagate nan.
\<close>

definition fadd :: "real option \<Rightarrow> real option \<Rightarrow> real option" where
  "fadd a b = (case a of None \<Rightarrow> None | Some x \<Rightarrow> map_option ((+) x) b)"

text \<open>
  \<open>v / n\<close> for an accumulated value and a Python int: Python raises for \<open>0 / 0\<close> (an
  accumulator that is still the int 0, because the loop never ran).
\<close>

definition fdiv :: "real option \<Rightarrow> nat \<Rightarrow> error + real option" where
  "fdiv v n = (if n = 0 then Inl ZeroDivisionError else Inr (map_option (\<lambda>x. x / real n) v))"

definition ebind :: "error + 'a \<Rightarrow> ('a \<Rightarrow> error + 'b) \<Rightarrow> error + 'b" where
  "ebind r f = (case r of Inl e \<Rightarrow> Inl e | Inr v \<Rightarrow> f v)"

section \<open>Loss criteria (Part 3)\<close>

text \<open>
  \<open>F.log_softmax(x, dim=1)\<close> and \<open>nn.LogSoftmax(dim=1)\<close>: every element is replaced by
  \<open>log (exp x / sum of exp over dimension 1)\<close>, the sum taken over its own lane.
\<close>

definition log_softmax :: "real tensor \<Rightarrow> error + real tensor" where
  "log_softmax t =
     (case shape t of
        b # C # rest \<Rightarrow>
          let inner = prod_list rest in
            Inr \<lparr>shape = shape t,
                 data =
                   map (\<lambda>j. ln (exp (data t ! j) /
                               sum_list (map exp
                                 (lane (data t) C inner ((j div (C * inner)) * inner + j mod inner)))))
                     [0..<length (data t)]\<rparr>
      | _ \<Rightarrow> Inl IndexError)"

text \<open>
  \<open>nn.NLLLoss()\<close> with the default mean reduction, on a batch of \<open>N\<close> rows of \<open>C\<close>
  log-probabilities and \<open>N\<close> class indices: the mean of \<open>- input[i, target[i]]\<close>. It
  raises when the batch sizes differ or a target is not a class index. Only the
  two-dimensional input the notebooks pass is modelled; any other rank is answered by
  the shape error.
\<close>

definition NLLLoss :: "real tensor \<Rightarrow> nat tensor \<Rightarrow> error + real option" where
  "NLLLoss inp target =
     (case shape inp of
        [N, C] \<Rightarrow>
          if shape target \<noteq> [N] then Inl ValueError
          else if list_ex (\<lambda>i. C \<le> data target ! i) [0..<N] then Inl IndexError
          else Inr (torch_mean
                 \<lparr>shape = [N],
                  data = map (\<lambda>i. - (data inp ! (i * C + data target ! i))) [0..<N]\<rparr>)
      | _ \<Rightarrow> Inl ValueError)"

text \<open>
  \<open>nn.CrossEntropyLoss()\<close> on raw scores, by the formula of its documentation:
  \<open>loss(x, class) = - x[class] + log (sum over j of exp x[j])\<close>, averaged over the batch.
\<close>

definition CrossEntropyLoss :: "real tensor \<Rightarrow> nat tensor \<Rightarrow> error + real option" where
  "CrossEntropyLoss inp target =
     (case shape inp of
        [N, C] \<Rightarrow>
          if shape target \<noteq> [N] then Inl ValueError
          else if list_ex (\<lambda>i. C \<le> data target ! i) [0..<N] then Inl IndexError
          else Inr (torch_mean
                 \<lparr>shape = [N],
                  data = map (\<lambda>i. - (data inp ! (i * C + data target ! i))
                                   + ln (sum_list (map exp (row inp i)))) [0..<N]\<rparr>)
      | _ \<Rightarrow> Inl ValueError)"

section \<open>Layers\<close>

record linear_layer =
  in_features :: nat
  out_features :: nat
  weight :: "real tensor"
  bias :: "real tensor"

text \<open>
  \<open>nn.Linear(n_in, n_out)\<close>: a weight of shape \<open>[n_out, n_in]\<close> and a bias of shape
  \<open>[n_out]\<close>, initialised at random; \<open>g\<close> supplies the initial values.
\<close>

definition Linear :: "nat \<Rightarrow> nat \<Rightarrow> (nat \<Rightarrow> real) \<Rightarrow> linear_layer" where
  "Linear n_in n_out g =
     \<lparr>in_features = n_in, out_features = n_out,
      weight = \<lparr>shape = [n_out, n_in], data = map g [0..<n_out * n_in]\<rparr>,
      bias = \<lparr>shape = [n_out], data = map (\<lambda>k. g (n_out * n_in + k)) [0..<n_out]\<rparr>\<rparr>"

definition wf_linear :: "nat \<Rightarrow> nat \<Rightarrow> linear_layer \<Rightarrow> bool" where
  "wf_linear n_in n_out l =
     (in_features l = n_in \<and> out_features l = n_out \<and>
      shape (weight l) = [n_out, n_in] \<and> length (data (weight l)) = n_out * n_in \<and>
      shape (bias l) = [n_out] \<and> length (data (bias l)) = n_out)"

definition dot :: "real list \<Rightarrow> real list \<Rightarrow> real" where
  "dot xs ys = sum_list (map2 (*) xs ys)"

text \<open>
  Applying a linear layer: the last dimension of the input must be \<open>in_features\<close>
  (otherwise the library raises a size mismatch); every row \<open>x\<close> becomes \<open>W x + b\<close>.
\<close>

definition linear_forward :: "linear_layer \<Rightarrow> real tensor \<Rightarrow> error + real tensor" where
  "linear_forward l x =
     (case rev (shape x) of
        [] \<Rightarrow> Inl RuntimeError
      | n # lead \<Rightarrow>
          if n \<noteq> in_features l then Inl RuntimeError
          else
            Inr \<lparr>shape = rev lead @ [out_features l],
                 data =
                   concat (map (\<lambda>r.
                       map (\<lambda>k. dot (take n (drop (r * n) (data x)))
                                    (take n (drop (k * n) (data (weight l))))
                                + data (bias l) ! k)
                         [0..<out_features l])
                     [0..<prod_list lead])\<rparr>)"

text \<open>\<open>F.relu\<close> and \<open>nn.ReLU()\<close>, elementwise.\<close>

definition relu :: "real tensor \<Rightarrow> real tensor" where
  "relu t = \<lparr>shape = shape t, data = map (max 0) (data t)\<rparr>"

text \<open>
  \<open>x.view(x.shape[0], -1)\<close>: keep the first dimension and flatten the rest. The library
  cannot infer the \<open>-1\<close> when the first dimension is 0.
\<close>

definition view_flat :: "'a tensor \<Rightarrow> error + 'a tensor" where
  "view_flat x =
     (case shape x of
        [] \<Rightarrow> Inl IndexError
      | b # rest \<Rightarrow>
          if b = 0 \<or> length (data x) mod b \<noteq> 0 then Inl RuntimeError
          else Inr \<lparr>shape = [b, length (data x) div b], data = data x\<rparr>)"

section \<open>The classifier of Part 5 (cell 2)\<close>

record Classifier =
  fc1 :: linear_layer
  fc2 :: linear_layer
  fc3 :: linear_layer
  fc4 :: linear_layer

text \<open>\<open>Classifier.__init__\<close>; the four arguments are the random initial values.\<close>

definition Classifier_init ::
  "(nat \<Rightarrow> real) \<Rightarrow> (nat \<Rightarrow> real) \<Rightarrow> (nat \<Rightarrow> real) \<Rightarrow> (nat \<Rightarrow> real) \<Rightarrow> Classifier" where
  "Classifier_init g1 g2 g3 g4 =
     \<lparr>fc1 = Linear 784 256 g1, fc2 = Linear 256 128 g2,
      fc3 = Linear 128 64 g3, fc4 = Linear 64 10 g4\<rparr>"


definition Classifier_forward :: "Classifier \<Rightarrow> real tensor \<Rightarrow> error + real tensor" where
  "Classifier_forward self x =
     ebind (view_flat x) (\<lambda>x.
     ebind (linear_forward (fc1 self) x) (\<lambda>h. let x = relu h in
     ebind (linear_forward (fc2 self) x) (\<lambda>h. let x = relu h in
     ebind (linear_forward (fc3 self) x) (\<lambda>h. let x = relu h in
     ebind (linear_forward (fc4 self) x) (\<lambda>h. log_softmax h)))))"


section \<open>The networks of Part 3 and their losses\<close>

datatype layer = LinearL linear_layer | ReLU | LogSoftmax

text \<open>Applying one module of an \<open>nn.Sequential\<close>; \<open>LogSoftmax\<close> is \<open>nn.LogSoftmax(dim=1)\<close>.\<close>

fun layer_forward :: "layer \<Rightarrow> real tensor \<Rightarrow> error + real tensor" where
  "layer_forward (LinearL l) x = linear_forward l x"
| "layer_forward ReLU x = Inr (relu x)"
| "layer_forward LogSoftmax x = log_softmax x"

fun Sequential_forward :: "layer list \<Rightarrow> real tensor \<Rightarrow> error + real tensor" where
  "Sequential_forward [] x = Inr x"
| "Sequential_forward (l # ls) x = ebind (layer_forward l x) (Sequential_forward ls)"

text \<open>
  The network that returns raw scores (Part 3, cell 2) and the one that ends in
  \<open>nn.LogSoftmax(dim=1)\<close> (the exercise after it), over the same three linear layers.
\<close>

definition logits_model :: "linear_layer \<Rightarrow> linear_layer \<Rightarrow> linear_layer \<Rightarrow> layer list" where
  "logits_model l1 l2 l3 = [LinearL l1, ReLU, LinearL l2, ReLU, LinearL l3]"

definition log_softmax_model :: "linear_layer \<Rightarrow> linear_layer \<Rightarrow> linear_layer \<Rightarrow> layer list" where
  "log_softmax_model l1 l2 l3 = [LinearL l1, ReLU, LinearL l2, ReLU, LinearL l3, LogSoftmax]"

text \<open>
  The two cells compute a loss for one batch:
  \<^verbatim>\<open>images = images.view(images.shape[0], -1)\<close>,
  \<^verbatim>\<open>logits = model(images)\<close>, \<^verbatim>\<open>loss = criterion(logits, labels)\<close>,
  the first with \<open>nn.CrossEntropyLoss()\<close>, the second with \<open>nn.NLLLoss()\<close>.
\<close>

definition loss_cross_entropy ::
  "linear_layer \<Rightarrow> linear_layer \<Rightarrow> linear_layer \<Rightarrow> real tensor \<Rightarrow> nat tensor \<Rightarrow> error + real option" where
  "loss_cross_entropy l1 l2 l3 images labels =
     ebind (view_flat images) (\<lambda>images.
     ebind (Sequential_forward (logits_model l1 l2 l3) images) (\<lambda>logits.
       CrossEntropyLoss logits labels))"

definition loss_nll ::
  "linear_layer \<Rightarrow> linear_layer \<Rightarrow> linear_layer \<Rightarrow> real tensor \<Rightarrow> nat tensor \<Rightarrow> error + real option" where
  "loss_nll l1 l2 l3 images labels =
     ebind (view_flat images) (\<lambda>images.
     ebind (Sequential_forward (log_softmax_model l1 l2 l3) images) (\<lambda>logps.
       NLLLoss logps labels))"

section \<open>The classifier with dropout (Part 5, cell 13)\<close>

text \<open>
  The exercise's class stores its modules under attribute names and its \<open>forward\<close> looks
  them up by name, so the object is modelled as its attribute dictionary: a lookup of a
  name that was never assigned raises \<open>AttributeError\<close>.
\<close>

datatype module = LinearM linear_layer | DropoutM real

definition getattr :: "(string \<rightharpoonup> module) \<Rightarrow> string \<Rightarrow> error + module" where
  "getattr self name =
     (case self name of None \<Rightarrow> Inl (AttributeError name) | Some v \<Rightarrow> Inr v)"

text \<open>
  \<open>nn.Dropout(p)\<close>: in training mode every element is dropped with probability \<open>p\<close> and
  the kept ones are scaled by \<open>1 / (1 - p)\<close>; \<open>keep\<close> is the random choice. In evaluation
  mode the input passes unchanged.
\<close>

definition dropout :: "real \<Rightarrow> bool \<Rightarrow> (nat \<Rightarrow> bool) \<Rightarrow> real tensor \<Rightarrow> real tensor" where
  "dropout p training_mode keep x =
     (if training_mode
      then \<lparr>shape = shape x,
            data = map (\<lambda>(k, v). if keep k then v / (1 - p) else 0)
                     (zip [0..<length (data x)] (data x))\<rparr>
      else x)"

fun call_module :: "module \<Rightarrow> bool \<Rightarrow> (nat \<Rightarrow> bool) \<Rightarrow> real tensor \<Rightarrow> error + real tensor" where
  "call_module (LinearM l) training_mode keep x = linear_forward l x"
| "call_module (DropoutM p) training_mode keep x = Inr (dropout p training_mode keep x)"

text \<open>
  \<open>__init__\<close> as the cell writes it: \<^verbatim>\<open>self.hidden_1\<close>, \<^verbatim>\<open>self.hidden_2\<close>,
  \<^verbatim>\<open>self.output\<close> and \<^verbatim>\<open>self.droput = nn.Dropout(p=0.2)\<close>.
\<close>

definition Classifier_dropout_init ::
  "(nat \<Rightarrow> real) \<Rightarrow> (nat \<Rightarrow> real) \<Rightarrow> (nat \<Rightarrow> real) \<Rightarrow> (string \<rightharpoonup> module)" where
  "Classifier_dropout_init g1 g2 g3 =
     [''hidden_1'' \<mapsto> LinearM (Linear 784 256 g1),
      ''hidden_2'' \<mapsto> LinearM (Linear 256 64 g2),
      ''output'' \<mapsto> LinearM (Linear 64 10 g3),
      ''droput'' \<mapsto> DropoutM 0.2]"

text \<open>
  \<open>forward\<close> as the cell writes it. In \<^verbatim>\<open>self.dropout(F.relu(self.hidden_1(x)))\<close> Python
  evaluates the called expression \<^verbatim>\<open>self.dropout\<close> before the argument.
  \<open>keep1\<close> and \<open>keep2\<close> are the random choices of the two dropout calls.
\<close>

definition Classifier_dropout_forward ::
  "(string \<rightharpoonup> module) \<Rightarrow> bool \<Rightarrow> (nat \<Rightarrow> bool) \<Rightarrow> (nat \<Rightarrow> bool) \<Rightarrow> real tensor
     \<Rightarrow> error + real tensor" where
  "Classifier_dropout_forward self training_mode keep1 keep2 x =
     ebind (case shape x of [] \<Rightarrow> Inl IndexError | b # rest \<Rightarrow> view x [b, 784]) (\<lambda>x.
     ebind (getattr self ''dropout'') (\<lambda>dropout1.
     ebind (getattr self ''hidden_1'') (\<lambda>hidden_1.
     ebind (call_module hidden_1 training_mode keep1 x) (\<lambda>h.
     ebind (call_module dropout1 training_mode keep1 (relu h)) (\<lambda>x.
     ebind (getattr self ''dropout'') (\<lambda>dropout2.
     ebind (getattr self ''hidden_2'') (\<lambda>hidden_2.
     ebind (call_module hidden_2 training_mode keep2 x) (\<lambda>h.
     ebind (call_module dropout2 training_mode keep2 (relu h)) (\<lambda>x.
     ebind (getattr self ''output'') (\<lambda>output_layer.
     ebind (call_module output_layer training_mode keep2 x) (\<lambda>h.
       log_softmax h)))))))))))"

text \<open>
  The class of the notebook's own text above the exercise, which assigns
  \<^verbatim>\<open>self.dropout = nn.Dropout(p=0.2)\<close>: the same dictionary with the name spelled as
  \<open>forward\<close> reads it.
\<close>

definition Classifier_dropout_init_as_documented ::
  "(nat \<Rightarrow> real) \<Rightarrow> (nat \<Rightarrow> real) \<Rightarrow> (nat \<Rightarrow> real) \<Rightarrow> (string \<rightharpoonup> module)" where
  "Classifier_dropout_init_as_documented g1 g2 g3 =
     [''hidden_1'' \<mapsto> LinearM (Linear 784 256 g1),
      ''hidden_2'' \<mapsto> LinearM (Linear 256 64 g2),
      ''output'' \<mapsto> LinearM (Linear 64 10 g3),
      ''dropout'' \<mapsto> DropoutM 0.2]"

section \<open>Training and validation loops (Part 3, last exercise; Part 5, cells 12 and 19)\<close>

text \<open>
  Gradient computation and optimisation belong to the framework, so they are parameters
  of the loops: what autograd computes for a batch, how a backward pass adds to the
  stored gradients, what \<open>zero_grad\<close> leaves, and what an optimizer step makes of the
  weights. The state the loops thread is the model's weights, the stored gradients, the
  optimizer's own state, the model's mode (\<open>model.train()\<close> / \<open>model.eval()\<close>) and the
  sequence of framework calls made so far.
\<close>

datatype event = ZeroGrad | Forward | Loss "real option" | Backward | Step

record ('p, 'g, 's) train_state =
  params :: 'p
  grads :: "'g option"
  opt_state :: 's
  training :: bool
  trace :: "event list"

record ('p, 'g, 's) framework =
  prepare :: "real tensor \<Rightarrow> error + real tensor"
  model_forward :: "'p \<Rightarrow> bool \<Rightarrow> real tensor \<Rightarrow> error + real tensor"
  criterion :: "real tensor \<Rightarrow> nat tensor \<Rightarrow> error + real option"
  autograd :: "'p \<Rightarrow> bool \<Rightarrow> real tensor \<Rightarrow> nat tensor \<Rightarrow> 'g"
  accumulate :: "'g option \<Rightarrow> 'g \<Rightarrow> 'g"
  zero_grad :: "'g option \<Rightarrow> 'g option"
  optimizer_step :: "'s \<Rightarrow> 'p \<Rightarrow> 'g option \<Rightarrow> 's \<times> 'p"

text \<open>
  One iteration of the training loop. \<open>prepare\<close> is what the loop does to the images
  before the training pass: Part 3 flattens them, Part 5 passes them as they are.
  \<^verbatim>\<open>optimizer.zero_grad()\<close>, \<^verbatim>\<open>output = model(images)\<close>,
  \<^verbatim>\<open>loss = criterion(output, labels)\<close>, \<^verbatim>\<open>loss.backward()\<close>,
  \<^verbatim>\<open>optimizer.step()\<close>; the value returned is \<^verbatim>\<open>loss.item()\<close>.
  An exception leaves the loop with the state reached so far.
\<close>

definition train_batch ::
  "('p, 'g, 's) framework \<Rightarrow> ('p, 'g, 's) train_state \<Rightarrow> real tensor \<times> nat tensor
     \<Rightarrow> ('p, 'g, 's) train_state \<times> (error + real option)" where
  "train_batch fw s batch =
     (case prepare fw (fst batch) of
        Inl e \<Rightarrow> (s, Inl e)
      | Inr images \<Rightarrow>
          let labels = snd batch;
              s1 = s\<lparr>grads := zero_grad fw (grads s), trace := trace s @ [ZeroGrad]\<rparr>
          in case model_forward fw (params s1) (training s1) images of
               Inl e \<Rightarrow> (s1, Inl e)
             | Inr output \<Rightarrow>
                 let s2 = s1\<lparr>trace := trace s1 @ [Forward]\<rparr>
                 in case criterion fw output labels of
                      Inl e \<Rightarrow> (s2, Inl e)
                    | Inr loss \<Rightarrow>
                        let s3 = s2\<lparr>trace := trace s2 @ [Loss loss]\<rparr>;
                            s4 = s3\<lparr>grads := Some (accumulate fw (grads s3)
                                             (autograd fw (params s3) (training s3) images labels)),
                                    trace := trace s3 @ [Backward]\<rparr>;
                            stepped = optimizer_step fw (opt_state s4) (params s4) (grads s4);
                            s5 = s4\<lparr>params := snd stepped, opt_state := fst stepped,
                                    trace := trace s4 @ [Step]\<rparr>
                        in (s5, Inr loss))"

text \<open>
  \<^verbatim>\<open>for images, labels in trainloader: ... running_loss += loss.item()\<close>
\<close>

fun train_pass ::
  "('p, 'g, 's) framework \<Rightarrow> ('p, 'g, 's) train_state \<Rightarrow> real option
     \<Rightarrow> (real tensor \<times> nat tensor) list
     \<Rightarrow> ('p, 'g, 's) train_state \<times> (error + real option)" where
  "train_pass fw s running_loss [] = (s, Inr running_loss)"
| "train_pass fw s running_loss (batch # rest) =
     (case train_batch fw s batch of
        (s', Inl e) \<Rightarrow> (s', Inl e)
      | (s', Inr loss) \<Rightarrow> train_pass fw s' (fadd running_loss loss) rest)"

text \<open>
  One epoch of Part 3: \<^verbatim>\<open>running_loss = 0\<close>, the loop, and in its \<open>else\<close> branch
  \<^verbatim>\<open>print(f"Training loss: {running_loss/len(trainloader)}")\<close>. The result is the number
  printed.
\<close>

definition train_epoch ::
  "('p, 'g, 's) framework \<Rightarrow> ('p, 'g, 's) train_state \<Rightarrow> (real tensor \<times> nat tensor) list
     \<Rightarrow> ('p, 'g, 's) train_state \<times> (error + real option)" where
  "train_epoch fw s trainloader =
     (case train_pass fw s (Some 0) trainloader of
        (s', Inl e) \<Rightarrow> (s', Inl e)
      | (s', Inr running_loss) \<Rightarrow> (s', fdiv running_loss (length trainloader)))"

text \<open>
  One iteration of the validation loop of cell 12, inside \<^verbatim>\<open>with torch.no_grad()\<close>:
  \<^verbatim>\<open>log_ps = model.forward(images)\<close>, \<^verbatim>\<open>test_loss += criterion(log_ps, labels)\<close>,
  \<^verbatim>\<open>ps = torch.exp(log_ps)\<close>, the comparison of the top class with the labels, and
  \<^verbatim>\<open>accuracy += torch.mean(equals.type(torch.FloatTensor))\<close>.
  The accumulators are the pair \<open>(test_loss, accuracy)\<close>.
\<close>

definition validate_batch ::
  "('p, 'g, 's) framework \<Rightarrow> ('p, 'g, 's) train_state \<Rightarrow> real option \<times> real option
     \<Rightarrow> real tensor \<times> nat tensor
     \<Rightarrow> ('p, 'g, 's) train_state \<times> (error + real option \<times> real option)" where
  "validate_batch fw s acc batch =
     (case model_forward fw (params s) (training s) (fst batch) of
        Inl e \<Rightarrow> (s, Inl e)
      | Inr log_ps \<Rightarrow>
          let s1 = s\<lparr>trace := trace s @ [Forward]\<rparr>
          in case criterion fw log_ps (snd batch) of
               Inl e \<Rightarrow> (s1, Inl e)
             | Inr loss \<Rightarrow>
                 let s2 = s1\<lparr>trace := trace s1 @ [Loss loss]\<rparr>;
                     ps = torch_exp log_ps
                 in case accuracy ps (snd batch) of
                      Inl e \<Rightarrow> (s2, Inl e)
                    | Inr a \<Rightarrow> (s2, Inr (fadd (fst acc) loss, fadd (snd acc) a)))"

fun validation_pass ::
  "('p, 'g, 's) framework \<Rightarrow> ('p, 'g, 's) train_state \<Rightarrow> real option \<times> real option
     \<Rightarrow> (real tensor \<times> nat tensor) list
     \<Rightarrow> ('p, 'g, 's) train_state \<times> (error + real option \<times> real option)" where
  "validation_pass fw s acc [] = (s, Inr acc)"
| "validation_pass fw s acc (batch # rest) =
     (case validate_batch fw s acc batch of
        (s', Inl e) \<Rightarrow> (s', Inl e)
      | (s', Inr acc') \<Rightarrow> validation_pass fw s' acc' rest)"

text \<open>
  The validation loop of cell 19 (the model with dropout): every iteration switches the
  model to evaluation mode inside \<^verbatim>\<open>with torch.no_grad()\<close> and back to training mode
  after it.
\<close>

fun validation_pass_dropout ::
  "('p, 'g, 's) framework \<Rightarrow> ('p, 'g, 's) train_state \<Rightarrow> real option \<times> real option
     \<Rightarrow> (real tensor \<times> nat tensor) list
     \<Rightarrow> ('p, 'g, 's) train_state \<times> (error + real option \<times> real option)" where
  "validation_pass_dropout fw s acc [] = (s, Inr acc)"
| "validation_pass_dropout fw s acc (batch # rest) =
     (case validate_batch fw (s\<lparr>training := False\<rparr>) acc batch of
        (s', Inl e) \<Rightarrow> (s', Inl e)
      | (s', Inr acc') \<Rightarrow> validation_pass_dropout fw (s'\<lparr>training := True\<rparr>) acc' rest)"

text \<open>
  What the \<open>else\<close> branch of an epoch of cell 12 reports after the validation loop:
  \<^verbatim>\<open>test_loss/len(testloader)\<close> and \<^verbatim>\<open>accuracy/len(testloader)\<close>.
\<close>

definition validation_report ::
  "('p, 'g, 's) framework \<Rightarrow> ('p, 'g, 's) train_state \<Rightarrow> (real tensor \<times> nat tensor) list
     \<Rightarrow> ('p, 'g, 's) train_state \<times> (error + real option \<times> real option)" where
  "validation_report fw s testloader =
     (case validation_pass fw s (Some 0, Some 0) testloader of
        (s', Inl e) \<Rightarrow> (s', Inl e)
      | (s', Inr acc) \<Rightarrow>
          (s', ebind (fdiv (fst acc) (length testloader)) (\<lambda>test_loss.
               ebind (fdiv (snd acc) (length testloader)) (\<lambda>test_accuracy.
                 Inr (test_loss, test_accuracy)))))"

text \<open>The test accuracy of that report: \<^verbatim>\<open>accuracy/len(testloader)\<close>.\<close>

definition test_accuracy ::
  "('p, 'g, 's) framework \<Rightarrow> ('p, 'g, 's) train_state \<Rightarrow> (real tensor \<times> nat tensor) list
     \<Rightarrow> error + real option" where
  "test_accuracy fw s testloader =
     (case snd (validation_report fw s testloader) of
        Inl e \<Rightarrow> Inl e
      | Inr report \<Rightarrow> Inr (snd report))"

text \<open>
  A whole epoch of cell 12: the training loop, then the validation loop, then the three
  numbers of the printed line (training loss, test loss, test accuracy).
\<close>

definition epoch ::
  "('p, 'g, 's) framework \<Rightarrow> ('p, 'g, 's) train_state \<Rightarrow> (real tensor \<times> nat tensor) list
     \<Rightarrow> (real tensor \<times> nat tensor) list
     \<Rightarrow> ('p, 'g, 's) train_state \<times> (error + real option \<times> real option \<times> real option)" where
  "epoch fw s trainloader testloader =
     (case train_pass fw s (Some 0) trainloader of
        (s1, Inl e) \<Rightarrow> (s1, Inl e)
      | (s1, Inr running_loss) \<Rightarrow>
          (case validation_pass fw s1 (Some 0, Some 0) testloader of
             (s2, Inl e) \<Rightarrow> (s2, Inl e)
           | (s2, Inr acc) \<Rightarrow>
               (s2, ebind (fdiv running_loss (length trainloader)) (\<lambda>training_loss.
                    ebind (fdiv (fst acc) (length testloader)) (\<lambda>test_loss.
                    ebind (fdiv (snd acc) (length testloader)) (\<lambda>test_accuracy.
                      Inr (training_loss, test_loss, test_accuracy)))))))"

text \<open>
  \<open>torch.utils.data.DataLoader(dataset, batch_size)\<close>: consecutive groups of
  \<open>batch_size\<close> examples, the last group smaller when the size of the dataset is not a
  multiple; each group is stacked into an image tensor and a label tensor. The dataset
  is given in the order the epoch's shuffle put it in.
\<close>

definition collate :: "(real tensor \<times> nat) list \<Rightarrow> real tensor \<times> nat tensor" where
  "collate chunk =
     (\<lparr>shape = length chunk # shape (fst (hd chunk)), data = concat (map (\<lambda>ex. data (fst ex)) chunk)\<rparr>,
      \<lparr>shape = [length chunk], data = map snd chunk\<rparr>)"

definition DataLoader ::
  "(real tensor \<times> nat) list \<Rightarrow> nat \<Rightarrow> error + (real tensor \<times> nat tensor) list" where
  "DataLoader dataset batch_size =
     (if batch_size = 0 then Inl ValueError
      else Inr (map (\<lambda>k. collate (take batch_size (drop (k * batch_size) dataset)))
                  [0..<(length dataset + batch_size - 1) div batch_size]))"


definition part5_framework ::
  "(Classifier \<Rightarrow> bool \<Rightarrow> real tensor \<Rightarrow> nat tensor \<Rightarrow> 'g) \<Rightarrow> ('g option \<Rightarrow> 'g \<Rightarrow> 'g)
     \<Rightarrow> ('g option \<Rightarrow> 'g option) \<Rightarrow> ('s \<Rightarrow> Classifier \<Rightarrow> 'g option \<Rightarrow> 's \<times> Classifier)
     \<Rightarrow> (Classifier, 'g, 's) framework" where
  "part5_framework ag acc zg st =
     \<lparr>prepare = Inr, model_forward = (\<lambda>p mode x. Classifier_forward p x),
      criterion = NLLLoss, autograd = ag, accumulate = acc, zero_grad = zg,
      optimizer_step = st\<rparr>"

text \<open>
  What the reported accuracy is compared with: the number of examples of a batch, and
  of the whole loader, whose top-1 class (of the probabilities the model gives them in
  their batch) is their label; and the number of examples.
\<close>

definition batch_correct ::
  "('p, 'g, 's) framework \<Rightarrow> 'p \<Rightarrow> bool \<Rightarrow> real tensor \<times> nat tensor \<Rightarrow> nat" where
  "batch_correct fw p mode batch =
     (case model_forward fw p mode (fst batch) of
        Inl e \<Rightarrow> 0
      | Inr log_ps \<Rightarrow> n_correct (torch_exp log_ps) (snd batch))"

definition total_correct ::
  "('p, 'g, 's) framework \<Rightarrow> 'p \<Rightarrow> bool \<Rightarrow> (real tensor \<times> nat tensor) list \<Rightarrow> nat" where
  "total_correct fw p mode loader = sum_list (map (batch_correct fw p mode) loader)"

definition total_examples :: "(real tensor \<times> nat tensor) list \<Rightarrow> nat" where
  "total_examples loader = sum_list (map (\<lambda>batch. length (data (snd batch))) loader)"

text \<open>
  A batch the validation loop gets through: the model returns a row of at least one
  log-probability for each example of the batch, and the criterion accepts them.
\<close>

definition batch_ok ::
  "('p, 'g, 's) framework \<Rightarrow> 'p \<Rightarrow> bool \<Rightarrow> real tensor \<times> nat tensor \<Rightarrow> bool" where
  "batch_ok fw p mode batch =
     (case model_forward fw p mode (fst batch) of
        Inl e \<Rightarrow> False
      | Inr log_ps \<Rightarrow>
          (case shape log_ps of
             [B, C] \<Rightarrow> B = length (data (snd batch)) \<and> 0 < C \<and> wf_tensor log_ps
           | _ \<Rightarrow> False) \<and>
          (case criterion fw log_ps (snd batch) of Inl e \<Rightarrow> False | Inr l \<Rightarrow> True))"

section \<open>Saving and loading models (Part 6)\<close>

text \<open>
  Modelled from the spec: \<open>fc_model.Network\<close>, whose file is not among the sources. The
  notebook prints the network built by \<open>fc_model.Network(784, 10, [512, 256, 128])\<close>: a
  module list \<open>hidden_layers\<close> of linear layers 784 to 512, 512 to 256 and 256 to 128, a
  linear layer \<open>output\<close> from 128 to 10, and a dropout module with probability 0.5. So
  the hidden layers chain the input size through the hidden sizes and the output layer
  goes from the last hidden size to the output size; with no hidden size there is no
  last one, which is the index error. \<open>init k\<close> supplies the random initial values of
  layer \<open>k\<close>.
\<close>

record network =
  hidden_layers :: "linear_layer list"
  output_layer :: linear_layer
  dropout_p :: real

definition layer_sizes :: "nat \<Rightarrow> nat list \<Rightarrow> (nat \<times> nat) list" where
  "layer_sizes input_size hidden = zip (input_size # butlast hidden) hidden"

fun build_layers :: "nat \<Rightarrow> (nat \<times> nat) list \<Rightarrow> (nat \<Rightarrow> nat \<Rightarrow> real) \<Rightarrow> linear_layer list" where
  "build_layers k [] init = []"
| "build_layers k (sz # sizes) init =
     Linear (fst sz) (snd sz) (init k) # build_layers (Suc k) sizes init"

definition Network ::
  "nat \<Rightarrow> nat \<Rightarrow> nat list \<Rightarrow> (nat \<Rightarrow> nat \<Rightarrow> real) \<Rightarrow> error + network" where
  "Network input_size output_size hidden init =
     (if hidden = [] then Inl IndexError
      else Inr \<lparr>hidden_layers = build_layers 0 (layer_sizes input_size hidden) init,
                output_layer = Linear (last hidden) output_size (init (length hidden)),
                dropout_p = 0.5\<rparr>)"

text \<open>
  A network as \<open>fc_model.Network(input_size, output_size, hidden)\<close> builds it and as
  training leaves it: the values of the parameters are arbitrary, the shapes are fixed.
\<close>

definition is_Network :: "nat \<Rightarrow> nat \<Rightarrow> nat list \<Rightarrow> network \<Rightarrow> bool" where
  "is_Network input_size output_size hidden m =
     (hidden \<noteq> [] \<and>
      list_all2 (\<lambda>l sz. wf_linear (fst sz) (snd sz) l) (hidden_layers m)
        (layer_sizes input_size hidden) \<and>
      wf_linear (last hidden) output_size (output_layer m) \<and>
      dropout_p m = 0.5)"

text \<open>
  \<open>model.state_dict()\<close>: the parameters in the order of the modules, under their names.
  The key \<open>'hidden_layers.k.weight'\<close> is written \<open>HiddenLayers k Weight\<close>, the key
  \<open>'output.bias'\<close> is written \<open>Output Bias\<close>, and so on.
\<close>

datatype param = Weight | Bias

datatype key = HiddenLayers nat param | Output param

definition layer_entries :: "(param \<Rightarrow> key) \<Rightarrow> linear_layer \<Rightarrow> (key \<times> real tensor) list" where
  "layer_entries name l = [(name Weight, weight l), (name Bias, bias l)]"

fun hidden_entries :: "nat \<Rightarrow> linear_layer list \<Rightarrow> (key \<times> real tensor) list" where
  "hidden_entries k [] = []"
| "hidden_entries k (l # ls) = layer_entries (HiddenLayers k) l @ hidden_entries (Suc k) ls"

definition state_dict :: "network \<Rightarrow> (key \<times> real tensor) list" where
  "state_dict m = hidden_entries 0 (hidden_layers m) @ layer_entries Output (output_layer m)"

text \<open>
  \<open>model.load_state_dict(state_dict)\<close> with the default \<open>strict=True\<close>, as the traceback in
  the notebook shows it: every parameter of the model whose key is in the state dict is
  overwritten when the shapes agree and reported as a size mismatch otherwise; keys of
  the model that the state dict lacks are missing, keys of the state dict that the model
  lacks are unexpected; any of the three raises \<open>RuntimeError\<close> after the loop, and
  otherwise the call returns the missing and the unexpected keys. The result is the
  model after the call together with the outcome.
\<close>

record incompatible_keys =
  missing_keys :: "key list"
  unexpected_keys :: "key list"

definition load_param :: "(key \<times> real tensor) list \<Rightarrow> key \<Rightarrow> real tensor \<Rightarrow> real tensor" where
  "load_param sd k p =
     (case map_of sd k of
        None \<Rightarrow> p
      | Some t \<Rightarrow> if shape t = shape p then t else p)"

definition load_layer ::
  "(key \<times> real tensor) list \<Rightarrow> (param \<Rightarrow> key) \<Rightarrow> linear_layer \<Rightarrow> linear_layer" where
  "load_layer sd name l =
     l\<lparr>weight := load_param sd (name Weight) (weight l),
       bias := load_param sd (name Bias) (bias l)\<rparr>"

fun load_hidden ::
  "(key \<times> real tensor) list \<Rightarrow> nat \<Rightarrow> linear_layer list \<Rightarrow> linear_layer list" where
  "load_hidden sd k [] = []"
| "load_hidden sd k (l # ls) = load_layer sd (HiddenLayers k) l # load_hidden sd (Suc k) ls"

definition size_mismatches :: "network \<Rightarrow> (key \<times> real tensor) list \<Rightarrow> key list" where
  "size_mismatches m sd =
     map fst (filter (\<lambda>kp. case map_of sd (fst kp) of
                              None \<Rightarrow> False
                            | Some t \<Rightarrow> shape t \<noteq> shape (snd kp)) (state_dict m))"

definition load_state_dict ::
  "network \<Rightarrow> (key \<times> real tensor) list \<Rightarrow> network \<times> (error + incompatible_keys)" where
  "load_state_dict m sd =
     (let own = map fst (state_dict m);
          missing = filter (\<lambda>k. map_of sd k = None) own;
          unexpected = filter (\<lambda>k. k \<notin> set own) (map fst sd);
          m' = m\<lparr>hidden_layers := load_hidden sd 0 (hidden_layers m),
                 output_layer := load_layer sd Output (output_layer m)\<rparr>
      in if size_mismatches m sd \<noteq> [] \<or> unexpected \<noteq> [] \<or> missing \<noteq> []
         then (m', Inl RuntimeError)
         else (m', Inr \<lparr>missing_keys = missing, unexpected_keys = unexpected\<rparr>))"

text \<open>
  The shapes a state dict records, and whether they are the shapes of a model's
  parameters under the same keys.
\<close>

definition recorded_shapes :: "(key \<times> real tensor) list \<Rightarrow> (key \<times> nat list) set" where
  "recorded_shapes sd = set (map (\<lambda>kt. (fst kt, shape (snd kt))) sd)"

definition architecture_matches :: "network \<Rightarrow> (key \<times> real tensor) list \<Rightarrow> bool" where
  "architecture_matches m sd = (recorded_shapes sd = recorded_shapes (state_dict m))"

text \<open>
  What \<open>torch.save\<close> writes and \<open>torch.load\<close> reads back: the objects the notebook
  pickles are ints, lists of ints, state dicts and dictionaries with string keys. The
  file system maps a path to the object saved there.
\<close>

datatype pyval =
    PyInt nat
  | PyList "nat list"
  | PyStateDict "(key \<times> real tensor) list"
  | PyDict "(string \<times> pyval) list"

definition torch_save :: "pyval \<Rightarrow> string \<Rightarrow> (string \<rightharpoonup> pyval) \<Rightarrow> (string \<rightharpoonup> pyval)" where
  "torch_save obj path fs = fs(path \<mapsto> obj)"

definition torch_load :: "string \<Rightarrow> (string \<rightharpoonup> pyval) \<Rightarrow> error + pyval" where
  "torch_load path fs = (case fs path of None \<Rightarrow> Inl FileNotFoundError | Some obj \<Rightarrow> Inr obj)"

text \<open>\<open>obj[name]\<close> for a string \<open>name\<close>.\<close>

fun getitem :: "pyval \<Rightarrow> string \<Rightarrow> error + pyval" where
  "getitem (PyDict kvs) name =
     (case map_of kvs name of None \<Rightarrow> Inl (KeyError name) | Some v \<Rightarrow> Inr v)"
| "getitem (PyStateDict sd) name = Inl (KeyError name)"
| "getitem (PyInt n) name = Inl TypeError"
| "getitem (PyList ns) name = Inl TypeError"

text \<open>
  The dictionary of cell 11 for a model with the given input and output size, and the
  cell itself, which writes the sizes of the notebook's model, 784 and 10:
  \<^verbatim>\<open>checkpoint = {'input_size': 784, 'output_size': 10,\<close>
  \<^verbatim>\<open>  'hidden_layers': [each.out_features for each in model.hidden_layers],\<close>
  \<^verbatim>\<open>  'state_dict': model.state_dict()}\<close>
\<close>

definition checkpoint_dict :: "nat \<Rightarrow> nat \<Rightarrow> network \<Rightarrow> pyval" where
  "checkpoint_dict input_size output_size model =
     PyDict [(''input_size'', PyInt input_size),
           (''output_size'', PyInt output_size),
           (''hidden_layers'', PyList (map out_features (hidden_layers model))),
           (''state_dict'', PyStateDict (state_dict model))]"

definition checkpoint :: "network \<Rightarrow> pyval" where
  "checkpoint model = checkpoint_dict 784 10 model"

text \<open>The call \<open>fc_model.Network(a, b, c)\<close> on unpickled values.\<close>

fun Network_call :: "pyval \<Rightarrow> pyval \<Rightarrow> pyval \<Rightarrow> (nat \<Rightarrow> nat \<Rightarrow> real) \<Rightarrow> error + network" where
  "Network_call (PyInt input_size) (PyInt output_size) (PyList hidden) init =
     Network input_size output_size hidden init"
| "Network_call a b c init = Inl TypeError"

text \<open>
  \<^verbatim>\<open>def load_checkpoint(filepath):\<close>
  \<^verbatim>\<open>    checkpoint = torch.load(filepath)\<close>
  \<^verbatim>\<open>    model = fc_model.Network(checkpoint['input_size'],\<close>
  \<^verbatim>\<open>                             checkpoint['output_size'],\<close>
  \<^verbatim>\<open>                             checkpoint['hidden_layers'])\<close>
  \<^verbatim>\<open>    model.load_state_dict(checkpoint['state_dict'])\<close>
  \<^verbatim>\<open>    return model\<close>
\<close>

definition load_checkpoint ::
  "string \<Rightarrow> (string \<rightharpoonup> pyval) \<Rightarrow> (nat \<Rightarrow> nat \<Rightarrow> real) \<Rightarrow> error + network" where
  "load_checkpoint filepath fs init =
     ebind (torch_load filepath fs) (\<lambda>ckpt.
     ebind (getitem ckpt ''input_size'') (\<lambda>input_size.
     ebind (getitem ckpt ''output_size'') (\<lambda>output_size.
     ebind (getitem ckpt ''hidden_layers'') (\<lambda>hidden.
     ebind (Network_call input_size output_size hidden init) (\<lambda>model.
     ebind (getitem ckpt ''state_dict'') (\<lambda>sd.
       case sd of
         PyStateDict d \<Rightarrow>
           (case load_state_dict model d of
              (model', Inl e) \<Rightarrow> Inl e
            | (model', Inr keys) \<Rightarrow> Inr model')
       | _ \<Rightarrow> Inl TypeError))))))"

section \<open>Example inputs\<close>

text \<open>Two examples with three classes each, and their labels.\<close>

definition ex_ps :: "real tensor" where
  "ex_ps = \<lparr>shape = [2, 3], data = [1/10, 7/10, 2/10, 5/10, 3/10, 2/10]\<rparr>"

definition ex_labels :: "nat tensor" where
  "ex_labels = \<lparr>shape = [2], data = [1, 2]\<rparr>"

text \<open>A batch of \<open>b\<close> black images of 28 by 28 pixels.\<close>

definition zero_images :: "nat \<Rightarrow> real tensor" where
  "zero_images b = \<lparr>shape = [b, 1, 28, 28], data = replicate (b * 784) 0\<rparr>"

text \<open>Raw scores of two examples over three classes.\<close>

definition ex_logits :: "real tensor" where
  "ex_logits = \<lparr>shape = [2, 3], data = [1, 2, 0, 0, -1, 3]\<rparr>"

text \<open>
  A classifier whose weights and biases are all zero, and a framework around it whose
  autograd records nothing and whose optimizer leaves the weights as they are.
\<close>

definition zero_classifier :: Classifier where
  "zero_classifier = Classifier_init (\<lambda>k. 0) (\<lambda>k. 0) (\<lambda>k. 0) (\<lambda>k. 0)"

definition idle_framework :: "(Classifier, unit, unit) framework" where
  "idle_framework =
     part5_framework (\<lambda>p mode x y. ()) (\<lambda>g d. ()) (\<lambda>g. None) (\<lambda>os p g. (os, p))"

definition start_state :: "(Classifier, unit, unit) train_state" where
  "start_state =
     \<lparr>params = zero_classifier, grads = None, opt_state = (), training = True, trace = []\<rparr>"

text \<open>A black image, and a test set of three of them with the labels 1, 1 and 0.\<close>

definition black_image :: "real tensor" where
  "black_image = \<lparr>shape = [1, 28, 28], data = replicate 784 0\<rparr>"

definition three_examples :: "(real tensor \<times> nat) list" where
  "three_examples = [(black_image, 1), (black_image, 1), (black_image, 0)]"

text \<open>The two batches a loader with batch size 2 makes of them.\<close>

definition three_examples_loader :: "(real tensor \<times> nat tensor) list" where
  "three_examples_loader =
     [collate [(black_image, 1), (black_image, 1)], collate [(black_image, 0)]]"

text \<open>A test set of four of them, which a batch size of 2 divides.\<close>

definition four_examples :: "(real tensor \<times> nat) list" where
  "four_examples = [(black_image, 1), (black_image, 0), (black_image, 0), (black_image, 3)]"

definition four_examples_loader :: "(real tensor \<times> nat tensor) list" where
  "four_examples_loader =
     [collate [(black_image, 1), (black_image, 0)], collate [(black_image, 0), (black_image, 3)]]"


text \<open>
  The two networks of Part 6, with hidden layers 512, 256, 128 and 400, 200, 100, and a
  fresh network of the first architecture with other parameter values.
\<close>

definition network_512 :: network where
  "network_512 =
     \<lparr>hidden_layers = [Linear 784 512 (\<lambda>k. 1), Linear 512 256 (\<lambda>k. 1), Linear 256 128 (\<lambda>k. 1)],
      output_layer = Linear 128 10 (\<lambda>k. 1), dropout_p = 0.5\<rparr>"

definition network_400 :: network where
  "network_400 =
     \<lparr>hidden_layers = [Linear 784 400 (\<lambda>k. 0), Linear 400 200 (\<lambda>k. 0), Linear 200 100 (\<lambda>k. 0)],
      output_layer = Linear 100 10 (\<lambda>k. 0), dropout_p = 0.5\<rparr>"

definition fresh_network_512 :: network where
  "fresh_network_512 =
     \<lparr>hidden_layers = [Linear 784 512 (\<lambda>k. 0), Linear 512 256 (\<lambda>k. 0), Linear 256 128 (\<lambda>k. 0)],
      output_layer = Linear 128 10 (\<lambda>k. 0), dropout_p = 0.5\<rparr>"
















definition zero_init :: "nat \<Rightarrow> nat \<Rightarrow> real" where
  "zero_init k j = 0"

text \<open>
  A classifier whose weights are all zero and whose biases are zero except the output
  bias of class 0, which is 1 (in the initial values of a layer the biases follow the
  weights, so this is value number \<open>64 * 10\<close> of the last layer). It gives every example
  the scores \<open>(1, 0, ..., 0)\<close>, so its top-1 class is class 0 for every example, with no
  tie.
\<close>

definition class0_classifier :: Classifier where
  "class0_classifier =
     Classifier_init (\<lambda>k. 0) (\<lambda>k. 0) (\<lambda>k. 0) (\<lambda>k. if k = 640 then 1 else 0)"

definition class0_scores :: "real list" where
  "class0_scores = [1, 0, 0, 0, 0, 0, 0, 0, 0, 0]"

definition class0_state :: "(Classifier, unit, unit) train_state" where
  "class0_state =
     \<lparr>params = class0_classifier, grads = None, opt_state = (), training = True, trace = []\<rparr>"

section \<open>Properties of the manual accuracy\<close>

lemma lane_matrix:
  "(Suc j) * C \<le> length xs \<Longrightarrow> lane xs C 1 j = take C (drop (j * C) xs)"
  by (rule nth_equalityI) (auto simp: lane_def)

lemma lane_row:
  assumes "shape t = [B, C]" "length (data t) = B * C" "i < B"
  shows "lane (data t) C 1 i = row t i"
proof -
  have "Suc i * C \<le> B * C" using assms(3) by (simp add: Suc_leI mult_le_mono1 del: mult_Suc)
  then show ?thesis using assms lane_matrix [of i C "data t"] by (simp add: row_def del: mult_Suc)
qed

lemma topk_matrix:
  assumes "shape ps = [B, C]" "0 < C"
  shows "topk ps = Inr (\<lparr>shape = [B, 1], data = map (\<lambda>j. snd (top1 (lane (data ps) C 1 j))) [0..<B]\<rparr>,
                       \<lparr>shape = [B, 1], data = map (\<lambda>j. fst (top1 (lane (data ps) C 1 j))) [0..<B]\<rparr>)"
  using assms by (simp add: topk_def Let_def comp_def)

lemma broadcast_same_col: "broadcast_shapes [B, 1] [B, 1] = Some [B, 1]"
  by (simp add: broadcast_shapes_def)

lemma all_idx_col: "all_idx [B, 1] = map (\<lambda>i. [i, 0]) [0..<B]"
proof -
  have "all_idx [1] = [[0]]" by (simp add: upt_rec)
  then show ?thesis by (simp add: comp_def) 
qed

lemma offset_col: "i < B \<Longrightarrow> offset [B, 1] [i, 0] = i"
  by (auto simp: offset_def)

lemma tensor_eq_col:
  assumes "shape a = [B, 1]" "shape b = [B, 1]"
  shows "tensor_eq a b = Inr \<lparr>shape = [B, 1], data = map (\<lambda>i. data a ! i = data b ! i) [0..<B]\<rparr>"
  using assms by (simp add: tensor_eq_def broadcast_same_col [unfolded One_nat_def] all_idx_col [unfolded One_nat_def] comp_def offset_col [unfolded One_nat_def])

lemma sum_indicator:
  "sum_list (map (\<lambda>i. if P i then (1::real) else 0) xs) = real (length (filter P xs))"
  by (induction xs) simp_all

lemma equals_matrix:
  assumes "shape ps = [B, C]" "length (data ps) = B * C" "0 < C"
    and "length (data labels) = B"
  shows "equals ps labels =
     Inr \<lparr>shape = [B, 1], data = map (\<lambda>i. predicted_class ps i = data labels ! i) [0..<B]\<rparr>"
proof -
  define tc :: "nat tensor" where
    "tc = \<lparr>shape = [B, 1], data = map (\<lambda>j. fst (top1 (lane (data ps) C 1 j))) [0..<B]\<rparr>"
  define lv :: "nat tensor" where "lv = \<lparr>shape = [B, 1], data = data labels\<rparr>"
  obtain tp where t: "topk ps = Inr (tp, tc)"
    using topk_matrix [OF assms(1) assms(3)] by (simp add: tc_def)
  have v: "view labels (shape tc) = Inr lv"
    using assms(4) by (simp add: view_def tc_def lv_def)
  have e: "tensor_eq tc lv =
      Inr \<lparr>shape = [B, 1], data = map (\<lambda>i. data tc ! i = data lv ! i) [0..<B]\<rparr>"
    by (rule tensor_eq_col) (simp_all add: tc_def lv_def)
  have d: "map (\<lambda>i. data tc ! i = data lv ! i) [0..<B]
      = map (\<lambda>i. predicted_class ps i = data labels ! i) [0..<B]"
    using lane_row [OF assms(1) assms(2)] by (simp add: predicted_class_def tc_def lv_def)
  show ?thesis
    by (simp add: equals_def t v e d)
qed

lemma broadcast_col_vec: "broadcast_shapes [B, 1] [B] = Some [B, B]"
  by (simp add: broadcast_shapes_def)

text \<open>
  Without the \<open>view\<close> the comparison broadcasts: a column of \<open>B\<close> predictions against a
  vector of \<open>B\<close> labels gives a \<open>B\<close> by \<open>B\<close> table, as the notebook warns.
\<close>

lemma equals_without_view_shape:
  assumes "shape ps = [B, C]" "0 < C" "shape labels = [B]"
  shows "\<exists>eq. equals_without_view ps labels = Inr eq \<and> shape eq = [B, B]"
  using assms
  by (simp add: equals_without_view_def topk_matrix [OF assms(1) assms(2)] tensor_eq_def
      broadcast_col_vec [unfolded One_nat_def])

text \<open>The two comparisons on a batch of two examples with three classes.\<close>

lemma accuracy_example: "accuracy ex_ps ex_labels = Inr (Some (1/2))"
  by (simp add: accuracy_def equals_def topk_def lane_def view_def tensor_eq_def
      broadcast_shapes_def offset_def torch_mean_def type_FloatTensor_def ex_ps_def ex_labels_def
      upt_rec Let_def)

lemma equals_without_view_example: "equals_without_view ex_ps ex_labels = Inr \<lparr>shape = [2,2], data = [True, False, False, False]\<rparr>"
  by (simp add: equals_without_view_def topk_def lane_def view_def tensor_eq_def
      broadcast_shapes_def offset_def ex_ps_def ex_labels_def
      upt_rec Let_def)

lemma accuracy_value:
  assumes "shape ps = [B, C]" "length (data ps) = B * C" "0 < B" "0 < C"
    and "length (data labels) = B"
  shows "accuracy ps labels = Inr (Some (real (n_correct ps labels) / real B))"
  using assms
  by (simp add: accuracy_def equals_matrix [OF assms(1) assms(2) assms(4) assms(5)]
      torch_mean_def type_FloatTensor_def comp_def sum_indicator n_correct_def)

text \<open>
  Claim C3. For a batch \<open>ps\<close> of \<open>B > 0\<close> rows of \<open>C > 0\<close> class probabilities and \<open>B\<close>
  labels, \<open>torch.mean(equals.type(torch.FloatTensor))\<close> is the number of examples whose
  top-1 class is their label, divided by the batch size \<open>B\<close>.
\<close>

theorem accuracy_is_fraction_correct:
  assumes "shape ps = [B, C]" "length (data ps) = B * C" "0 < B" "0 < C"
    and "length (data labels) = B"
  shows "accuracy ps labels = Inr (Some (real (n_correct ps labels) / real B))"
  using assms by (rule accuracy_value)

theorem accuracy_is_fraction_correct_witness:
  "shape ex_ps = [2, 3] \<and> length (data ex_ps) = 2 * 3 \<and> (0::nat) < 2 \<and> (0::nat) < 3 \<and>
   length (data ex_labels) = 2 \<and>
   accuracy ex_ps ex_labels = Inr (Some (real (n_correct ex_ps ex_labels) / real 2))"
proof -
  have h: "shape ex_ps = [2, 3]" "length (data ex_ps) = 2 * 3" "(0::nat) < 2" "(0::nat) < 3"
      "length (data ex_labels) = 2"
    by (simp_all add: ex_ps_def ex_labels_def)
  show ?thesis
    using accuracy_is_fraction_correct [OF h] h by simp
qed

text \<open>
  Claim C9. With the labels viewed in the shape of \<open>top_class\<close>, \<open>equals\<close> has shape
  \<open>(B, 1)\<close> and its \<open>i\<close>-th entry says whether the top-1 class of example \<open>i\<close> is label
  \<open>i\<close>: one entry per example, not one per pair of a prediction and a label.
\<close>

theorem equals_elementwise:
  assumes "shape ps = [B, C]" "length (data ps) = B * C" "0 < C"
    and "shape labels = [B]" "length (data labels) = B"
  shows "\<exists>eq. equals ps labels = Inr eq \<and> shape eq = [B, 1] \<and> length (data eq) = B \<and>
           (\<forall>i. i < B \<longrightarrow> data eq ! i = (predicted_class ps i = data labels ! i))"
  by (simp add: equals_matrix [OF assms(1) assms(2) assms(3) assms(5)])

theorem equals_elementwise_witness:
  "shape ex_ps = [2, 3] \<and> length (data ex_ps) = 2 * 3 \<and> (0::nat) < 3 \<and>
   shape ex_labels = [2] \<and> length (data ex_labels) = 2 \<and>
   (\<exists>eq. equals ex_ps ex_labels = Inr eq \<and> shape eq = [2, 1] \<and> length (data eq) = 2 \<and>
      data eq ! 0 = (predicted_class ex_ps 0 = data ex_labels ! 0) \<and>
      data eq ! 1 = (predicted_class ex_ps 1 = data ex_labels ! 1))"
proof -
  have h: "shape ex_ps = [2, 3]" "length (data ex_ps) = 2 * 3" "(0::nat) < 3"
      "shape ex_labels = [2]" "length (data ex_labels) = 2"
    by (simp_all add: ex_ps_def ex_labels_def)
  obtain eq where "equals ex_ps ex_labels = Inr eq" "shape eq = [2, 1]" "length (data eq) = 2"
      "\<forall>i. i < 2 \<longrightarrow> data eq ! i = (predicted_class ex_ps i = data ex_labels ! i)"
    using equals_elementwise [OF h] by blast
  then show ?thesis using h by auto
qed

section \<open>Properties of the layers and of the classifier\<close>

lemma length_concat_const:
  "length (concat (map (\<lambda>r. map (f r) [0..<m]) [0..<n])) = n * m"
  by (simp add: length_concat comp_def sum_list_triv)

lemma linear_forward_matrix:
  assumes "shape x = [B, n]" "in_features l = n"
  shows "\<exists>y. linear_forward l x = Inr y \<and> shape y = [B, out_features l] \<and>
             length (data y) = B * out_features l"
  using assms by (simp add: linear_forward_def length_concat_const)

lemma relu_shape: "shape (relu t) = shape t"
  by (simp add: relu_def)

lemma view_flat_ok:
  assumes "shape x = b # rest" "0 < b" "length (data x) = b * n"
  shows "view_flat x = Inr \<lparr>shape = [b, n], data = data x\<rparr>"
  using assms by (simp add: view_flat_def)

lemma sum_exp_nonneg: "0 \<le> sum_list (map exp (xs :: real list))"
  by (induction xs) (simp_all add: add_nonneg_nonneg)

lemma sum_exp_pos: "xs \<noteq> [] \<Longrightarrow> 0 < sum_list (map exp (xs :: real list))"
  by (cases xs) (simp_all add: add_pos_nonneg sum_exp_nonneg)


lemma lane_nonempty: "0 < C \<Longrightarrow> lane xs C inner j \<noteq> []"
  by (simp add: lane_def)

lemma log_softmax_matrix:
  assumes "shape t = [B, C]" "length (data t) = B * C"
  shows "log_softmax t = Inr \<lparr>shape = [B, C],
           data = map (\<lambda>j. ln (exp (data t ! j) / sum_list (map exp (lane (data t) C 1 (j div C)))))
                    [0..<B * C]\<rparr>"
  using assms by (simp add: log_softmax_def)







lemma wf_Linear: "wf_linear n_in n_out (Linear n_in n_out g)"
  by (simp add: wf_linear_def Linear_def)






section \<open>Cross entropy against negative log likelihood\<close>

lemma cross_entropy_is_nll_of_log_softmax:
  assumes "shape logits = [N, C]" "length (data logits) = N * C"
  shows "CrossEntropyLoss logits labels = ebind (log_softmax logits) (\<lambda>lp. NLLLoss lp labels)"
proof (cases "shape labels \<noteq> [N] \<or> list_ex (\<lambda>i. C \<le> data labels ! i) [0..<N]")
  case True
  then show ?thesis
    using assms
    by (auto simp: CrossEntropyLoss_def NLLLoss_def ebind_def log_softmax_matrix [OF assms])
next
  case False
  then have sh: "shape labels = [N]" and inr: "\<forall>i. i < N \<longrightarrow> data labels ! i < C"
    by (auto simp: list_ex_iff not_le)
  define lp where "lp = map (\<lambda>j. ln (exp (data logits ! j) /
        sum_list (map exp (lane (data logits) C 1 (j div C))))) [0..<N * C]"
  have ls: "log_softmax logits = Inr \<lparr>shape = [N, C], data = lp\<rparr>"
    unfolding lp_def by (rule log_softmax_matrix [OF assms])
  have pt: "- (data logits ! (i * C + data labels ! i)) + ln (sum_list (map exp (row logits i)))
          = - (lp ! (i * C + data labels ! i))" if i: "i < N" for i
  proof -
    have t: "data labels ! i < C" using inr i by simp
    then have Cpos: "0 < C" by simp
    have "i * C + data labels ! i < i * C + C" using t by simp
    also have "\<dots> \<le> N * C"
      using i by (metis Suc_leI mult_Suc mult_le_mono1 add.commute)
    finally have idx: "i * C + data labels ! i < N * C" .
    have d: "(i * C + data labels ! i) div C = i" using t by simp
    have S: "0 < sum_list (map exp (lane (data logits) C 1 i))"
      by (rule sum_exp_pos) (rule lane_nonempty [OF Cpos])
    have r: "row logits i = lane (data logits) C 1 i"
      using lane_row [OF assms i] by simp
    show ?thesis
      using idx S by (simp add: lp_def d r ln_divide_pos)
  qed
  have m: "map (\<lambda>i. - (data logits ! (i * C + data labels ! i)) + ln (sum_list (map exp (row logits i)))) [0..<N]
      = map (\<lambda>i. - (lp ! (i * C + data labels ! i))) [0..<N]"
    using pt by simp
  have ce: "CrossEntropyLoss logits labels = Inr (torch_mean \<lparr>shape = [N],
      data = map (\<lambda>i. - (data logits ! (i * C + data labels ! i))
                       + ln (sum_list (map exp (row logits i)))) [0..<N]\<rparr>)"
    using False sh by (simp add: CrossEntropyLoss_def assms(1))
  have nl: "ebind (log_softmax logits) (\<lambda>lp. NLLLoss lp labels) = Inr (torch_mean \<lparr>shape = [N],
      data = map (\<lambda>i. - (lp ! (i * C + data labels ! i))) [0..<N]\<rparr>)"
    using False sh by (simp add: NLLLoss_def ebind_def ls)
  show ?thesis by (simp only: ce nl m)
qed

lemma ebind_assoc: "ebind (ebind r f) g = ebind r (\<lambda>v. ebind (f v) g)"
  by (cases r) (simp_all add: ebind_def)

lemma ebind_Inr: "ebind (Inr v) f = f v"
  by (simp add: ebind_def)

lemma ebind_Inl: "ebind (Inl e) f = Inl e"
  by (simp add: ebind_def)

lemma Sequential_append:
  "Sequential_forward (ls @ ms) x = ebind (Sequential_forward ls x) (Sequential_forward ms)"
proof (induction ls arbitrary: x)
  case Nil
  show ?case by (simp add: ebind_def)
next
  case (Cons l ls)
  show ?case by (cases "layer_forward l x") (simp_all add: ebind_def Cons.IH)
qed

lemma linear_forward_rank2:
  assumes "shape x = [B, k]" "linear_forward l x = Inr y"
  shows "shape y = [B, out_features l] \<and> length (data y) = B * out_features l"
  using assms by (auto simp: linear_forward_def length_concat_const split: if_splits)

lemma logits_model_shape:
  assumes "shape x = [B, k]" "Sequential_forward (logits_model l1 l2 l3) x = Inr y"
  shows "shape y = [B, out_features l3] \<and> length (data y) = B * out_features l3"
proof -
  obtain h1 where h1: "linear_forward l1 x = Inr h1"
    using assms(2) by (cases "linear_forward l1 x") (simp_all add: logits_model_def ebind_def)
  have s1: "shape (relu h1) = [B, out_features l1]"
    using linear_forward_rank2 [OF assms(1) h1] by (simp add: relu_shape)
  obtain h2 where h2: "linear_forward l2 (relu h1) = Inr h2"
    using assms(2) h1
    by (cases "linear_forward l2 (relu h1)") (simp_all add: logits_model_def ebind_def)
  have s2: "shape (relu h2) = [B, out_features l2]"
    using linear_forward_rank2 [OF s1 h2] by (simp add: relu_shape)
  have "linear_forward l3 (relu h2) = Inr y"
    using assms(2) h1 h2 by (simp add: logits_model_def ebind_def split: sum.splits)
  then show ?thesis by (rule linear_forward_rank2 [OF s2])
qed

lemma view_flat_rank2:
  assumes "view_flat x = Inr y"
  shows "\<exists>B k. shape y = [B, k]"
  using assms by (auto simp: view_flat_def split: list.splits if_splits)

lemma log_softmax_model_append: "log_softmax_model l1 l2 l3 = logits_model l1 l2 l3 @ [LogSoftmax]"
  by (simp add: log_softmax_model_def logits_model_def)

lemma Sequential_LogSoftmax: "Sequential_forward [LogSoftmax] = log_softmax"
  by (rule ext) (simp add: ebind_def split: sum.splits)

lemma loss_nll_eq_loss_cross_entropy:
  "loss_nll l1 l2 l3 images labels = loss_cross_entropy l1 l2 l3 images labels"
proof (cases "view_flat images")
  case (Inl e)
  then show ?thesis by (simp add: loss_nll_def loss_cross_entropy_def ebind_def)
next
  case (Inr x)
  then obtain B k where sx: "shape x = [B, k]" using view_flat_rank2 by blast
  show ?thesis
  proof (cases "Sequential_forward (logits_model l1 l2 l3) x")
    case (Inl e)
    then show ?thesis
      using Inr
      by (simp add: loss_nll_def loss_cross_entropy_def log_softmax_model_append
          Sequential_append ebind_Inr ebind_Inl)
  next
    case r: (Inr logits)
    have "shape logits = [B, out_features l3]" "length (data logits) = B * out_features l3"
      using logits_model_shape [OF sx r] by simp_all
    then have "CrossEntropyLoss logits labels = ebind (log_softmax logits) (\<lambda>lp. NLLLoss lp labels)"
      by (rule cross_entropy_is_nll_of_log_softmax)
    then show ?thesis
      using Inr r
      by (simp add: loss_nll_def loss_cross_entropy_def log_softmax_model_append
          Sequential_append ebind_Inr Sequential_LogSoftmax)
  qed
qed

text \<open>The cross entropy of the example scores, computed from the definition.\<close>

lemma cross_entropy_example:
  "CrossEntropyLoss ex_logits ex_labels
     = Inr (Some ((- 2 + ln (exp 1 + exp 2 + exp 0) + (- 3 + ln (exp 0 + exp (-1) + exp 3))) / 2))"
  by (simp add: CrossEntropyLoss_def ex_logits_def ex_labels_def torch_mean_def row_def upt_rec
      add.assoc)

text \<open>
  Claim C8. For every tensor of raw scores of shape \<open>(N, C)\<close> and every label tensor, the
  cross-entropy criterion on the scores is the negative log likelihood criterion on their
  log-softmax over dimension 1 (the same number, or the same exception); and the loss
  the network without \<open>nn.LogSoftmax\<close> gets from \<open>nn.CrossEntropyLoss\<close> is the loss the
  network ending in \<open>nn.LogSoftmax(dim=1)\<close> gets from \<open>nn.NLLLoss\<close>, for the same layers,
  images and labels.
\<close>

theorem cross_entropy_equals_nll_log_softmax:
  assumes "shape logits = [N, C]" "wf_tensor logits"
  shows "CrossEntropyLoss logits labels = ebind (log_softmax logits) (\<lambda>logps. NLLLoss logps labels)
       \<and> loss_cross_entropy l1 l2 l3 images labels = loss_nll l1 l2 l3 images labels"
proof -
  have "length (data logits) = N * C" using assms by (simp add: wf_tensor_def)
  then show ?thesis
    using cross_entropy_is_nll_of_log_softmax [OF assms(1)] loss_nll_eq_loss_cross_entropy
    by simp
qed

theorem cross_entropy_equals_nll_log_softmax_witness:
  "shape ex_logits = [2, 3] \<and> wf_tensor ex_logits \<and>
   CrossEntropyLoss ex_logits ex_labels
     = ebind (log_softmax ex_logits) (\<lambda>logps. NLLLoss logps ex_labels) \<and>
   loss_cross_entropy (Linear 784 128 (\<lambda>k. 0)) (Linear 128 64 (\<lambda>k. 0)) (Linear 64 10 (\<lambda>k. 0))
       (zero_images 64) ex_labels
     = loss_nll (Linear 784 128 (\<lambda>k. 0)) (Linear 128 64 (\<lambda>k. 0)) (Linear 64 10 (\<lambda>k. 0))
       (zero_images 64) ex_labels"
proof -
  have h: "shape ex_logits = [2, 3]" "wf_tensor ex_logits"
    by (simp_all add: ex_logits_def wf_tensor_def)
  show ?thesis
    using cross_entropy_equals_nll_log_softmax [OF h] h by simp
qed

section \<open>Properties of the classifier with dropout\<close>

lemma getattr_dropout_missing:
  "getattr (Classifier_dropout_init g1 g2 g3) ''dropout'' = Inl (AttributeError ''dropout'')"
  by (simp add: getattr_def Classifier_dropout_init_def)

lemma dropout_forward_raises_784:
  assumes "shape x = b # rest" "length (data x) = b * 784"
  shows "Classifier_dropout_forward (Classifier_dropout_init g1 g2 g3) training_mode keep1 keep2 x
           = Inl (AttributeError ''dropout'')"
  using assms
  by (simp add: Classifier_dropout_forward_def view_def ebind_def getattr_dropout_missing)

lemma dropout_forward_never_returns:
  "Classifier_dropout_forward (Classifier_dropout_init g1 g2 g3) training_mode keep1 keep2 x \<noteq> Inr out"
  by (simp add: Classifier_dropout_forward_def ebind_def getattr_dropout_missing split: sum.splits)

text \<open>
  With the attribute spelled as the notebook's own description of the class spells it,
  the same \<open>forward\<close> completes on every batch of 784-element examples and returns one
  row of 10 values per example.
\<close>

lemma dropout_shape: "shape (dropout p mode keep x) = shape x"
  by (simp add: dropout_def)

lemma documented_dropout_forward_ok:
  assumes "shape x = b # rest" "length (data x) = b * 784"
  shows "\<exists>out. Classifier_dropout_forward (Classifier_dropout_init_as_documented g1 g2 g3)
                  mode keep1 keep2 x = Inr out \<and> shape out = [b, 10]"
proof -
  define self where "self = Classifier_dropout_init_as_documented g1 g2 g3"
  define p :: real where "p = 0.2"
  have a: "getattr self ''dropout'' = Inr (DropoutM p)"
    "getattr self ''hidden_1'' = Inr (LinearM (Linear 784 256 g1))"
    "getattr self ''hidden_2'' = Inr (LinearM (Linear 256 64 g2))"
    "getattr self ''output'' = Inr (LinearM (Linear 64 10 g3))"
    by (simp_all add: self_def p_def getattr_def Classifier_dropout_init_as_documented_def)
  define x0 where "x0 = \<lparr>shape = [b, 784], data = data x\<rparr>"
  have v: "view x [b, 784] = Inr x0" using assms(2) by (simp add: view_def x0_def)
  have s0: "shape x0 = [b, 784]" by (simp add: x0_def)
  obtain h1 where h1: "linear_forward (Linear 784 256 g1) x0 = Inr h1" "shape h1 = [b, 256]"
    using linear_forward_matrix [OF s0, of "Linear 784 256 g1"] by (auto simp: Linear_def)
  define x1 where "x1 = dropout p mode keep1 (relu h1)"
  have s1: "shape x1 = [b, 256]" by (simp add: x1_def dropout_shape relu_shape h1)
  obtain h2 where h2: "linear_forward (Linear 256 64 g2) x1 = Inr h2" "shape h2 = [b, 64]"
    using linear_forward_matrix [OF s1, of "Linear 256 64 g2"] by (auto simp: Linear_def)
  define x2 where "x2 = dropout p mode keep2 (relu h2)"
  have s2: "shape x2 = [b, 64]" by (simp add: x2_def dropout_shape relu_shape h2)
  obtain h3 where h3: "linear_forward (Linear 64 10 g3) x2 = Inr h3" "shape h3 = [b, 10]"
      "length (data h3) = b * 10"
    using linear_forward_matrix [OF s2, of "Linear 64 10 g3"] by (auto simp: Linear_def)
  have l: "log_softmax h3 = Inr \<lparr>shape = [b, 10],
           data = map (\<lambda>j. ln (exp (data h3 ! j) / sum_list (map exp (lane (data h3) 10 1 (j div 10)))))
                    [0..<b * 10]\<rparr>"
    by (rule log_softmax_matrix [OF h3(2) h3(3)])
  have "Classifier_dropout_forward self mode keep1 keep2 x = log_softmax h3"
    by (simp add: Classifier_dropout_forward_def assms(1) v a ebind_def h1
        x1_def [symmetric] h2 x2_def [symmetric] h3)
  then show ?thesis unfolding self_def using l by simp
qed

text \<open>
  Claim C7. The claim says that the forward pass of the classifier with dropout completes
  for every batch whose examples have 784 elements. The class assigns the dropout module
  to \<open>self.droput\<close> and \<open>forward\<close> reads \<open>self.dropout\<close>, so on a batch of 64 images of 28
  by 28 pixels (and on every other batch of 784-element examples, by
  \<open>dropout_forward_raises_784\<close>) the forward pass raises \<open>AttributeError\<close>, whatever the
  weights, the mode and the random choices; \<open>documented_dropout_forward_ok\<close> is the
  behaviour the claim describes, which the class misses by the spelling of one name.
\<close>

theorem dropout_forward_raises_AttributeError:
  "Classifier_dropout_forward (Classifier_dropout_init g1 g2 g3) training_mode keep1 keep2
      (zero_images 64) = Inl (AttributeError ''dropout'')"
  by (rule dropout_forward_raises_784 [where rest = "[1, 28, 28]"])
     (simp_all add: zero_images_def)

section \<open>Properties of the validation loop: the model is left alone\<close>

lemma validate_batch_frame:
  "params (fst (validate_batch fw s acc batch)) = params s \<and>
   grads (fst (validate_batch fw s acc batch)) = grads s \<and>
   opt_state (fst (validate_batch fw s acc batch)) = opt_state s \<and>
   training (fst (validate_batch fw s acc batch)) = training s"
  by (simp add: validate_batch_def Let_def split: sum.splits)

lemma validation_pass_frame:
  "params (fst (validation_pass fw s acc loader)) = params s \<and>
   grads (fst (validation_pass fw s acc loader)) = grads s \<and>
   opt_state (fst (validation_pass fw s acc loader)) = opt_state s \<and>
   training (fst (validation_pass fw s acc loader)) = training s"
proof (induction loader arbitrary: s acc)
  case Nil
  show ?case by simp
next
  case (Cons batch rest)
  obtain s' r where v: "validate_batch fw s acc batch = (s', r)"
    by (cases "validate_batch fw s acc batch")
  have f: "params s' = params s \<and> grads s' = grads s \<and> opt_state s' = opt_state s \<and>
      training s' = training s"
    using validate_batch_frame [of fw s acc batch] by (simp add: v)
  show ?case
  proof (cases r)
    case (Inl e)
    then show ?thesis using v f by simp
  next
    case (Inr acc')
    then show ?thesis using v f Cons.IH [of s' acc'] by simp
  qed
qed

lemma validation_pass_dropout_frame:
  "params (fst (validation_pass_dropout fw s acc loader)) = params s \<and>
   grads (fst (validation_pass_dropout fw s acc loader)) = grads s \<and>
   opt_state (fst (validation_pass_dropout fw s acc loader)) = opt_state s"
proof (induction loader arbitrary: s acc)
  case Nil
  show ?case by simp
next
  case (Cons batch rest)
  obtain s' r where v: "validate_batch fw (s\<lparr>training := False\<rparr>) acc batch = (s', r)"
    by (cases "validate_batch fw (s\<lparr>training := False\<rparr>) acc batch")
  have f: "params s' = params s \<and> grads s' = grads s \<and> opt_state s' = opt_state s"
    using validate_batch_frame [of fw "s\<lparr>training := False\<rparr>" acc batch] by (simp add: v)
  show ?case
  proof (cases r)
    case (Inl e)
    then show ?thesis using v f by simp
  next
    case (Inr acc')
    then show ?thesis using v f Cons.IH [of "s'\<lparr>training := True\<rparr>" acc'] by simp
  qed
qed

section \<open>Properties of the training loop\<close>




lemma fadd_Some: "fadd (Some x) (Some y) = Some (x + y)"
  by (simp add: fadd_def)





lemma epoch_training_loss:
  assumes "epoch fw s trainloader testloader = (s2, Inr (training_loss, test_loss, test_acc))"
  shows "\<exists>s1. train_epoch fw s trainloader = (s1, Inr training_loss)"
  using assms
  by (auto simp: epoch_def train_epoch_def ebind_def split: prod.splits sum.splits)

section \<open>The classifier with all weights zero\<close>

text \<open>
  With all weights and biases zero every layer returns zeros, so the classifier gives
  every example the same log-probability \<open>ln (1 / 10)\<close> for each class.
\<close>

lemma dot_zero: "dot xs (replicate n 0) = 0"
proof (induction xs arbitrary: n)
  case Nil
  show ?case by (simp add: dot_def)
next
  case (Cons x xs)
  show ?case using Cons.IH by (cases n) (simp_all add: dot_def)
qed

lemma map_const_upt: "map (\<lambda>k. c) [0..<n] = replicate n c"
  by (simp add: map_replicate_const)

lemma concat_replicate_replicate: "concat (replicate B (replicate m x)) = replicate (B * m) x"
  by (induction B) (simp_all add: replicate_add)

lemma zero_rows:
  "concat (map (\<lambda>r. map (\<lambda>k. dot (f r) (replicate (g k) 0)
                                 + replicate m (0::real) ! k) [0..<m]) [0..<B])
     = replicate (B * m) 0"
proof -
  have inner: "map (\<lambda>k. dot (f r) (replicate (g k) 0)
                      + replicate m (0::real) ! k) [0..<m] = replicate m 0" for r
  proof -
    have "map (\<lambda>k. dot (f r) (replicate (g k) 0)
                      + replicate m (0::real) ! k) [0..<m] = map (\<lambda>k. 0) [0..<m]"
      by (rule map_cong [OF refl]) (simp add: dot_zero)
    then show ?thesis by (simp add: map_const_upt)
  qed
  show ?thesis
    by (simp only: inner map_const_upt concat_replicate_replicate)
qed

lemma zero_linear_forward:
  assumes "shape x = [B, n]"
  shows "linear_forward (Linear n m (\<lambda>k. 0)) x = Inr \<lparr>shape = [B, m], data = replicate (B * m) 0\<rparr>"
  using assms by (simp add: linear_forward_def Linear_def map_const_upt zero_rows)

lemma relu_zero: "relu \<lparr>shape = s, data = replicate n 0\<rparr> = \<lparr>shape = s, data = replicate n 0\<rparr>"
  by (simp add: relu_def)





section \<open>The classifier that gives every example the scores of class 0\<close>

text \<open>
  With all weights zero a linear layer returns its bias for every row. The classifier
  whose only non-zero parameter is the output bias of class 0 therefore gives every
  example the scores \<open>(1, 0, ..., 0)\<close>, and class 0 is the top-1 class of every example.
\<close>

lemma const_rows:
  "concat (map (\<lambda>r. map (\<lambda>k. dot (f r) (replicate (g k) 0) + bs ! k) [0..<m]) [0..<B])
     = concat (replicate B (map (\<lambda>k. bs ! k) [0..<m]))"
  by (simp add: dot_zero map_const_upt)

lemma zero_weight_linear_forward:
  assumes "shape x = [B, n]" "\<forall>k. k < m * n \<longrightarrow> g k = 0"
  shows "linear_forward (Linear n m g) x
       = Inr \<lparr>shape = [B, m], data = concat (replicate B (map (\<lambda>k. g (m * n + k)) [0..<m]))\<rparr>"
proof -
  have "map g [0..<m * n] = map (\<lambda>k. 0) [0..<m * n]"
    using assms(2) by (intro map_cong [OF refl]) simp
  then have w: "map g [0..<m * n] = replicate (m * n) 0"
    by (simp add: map_const_upt)
  have b: "map (\<lambda>k. map (\<lambda>k. g (m * n + k)) [0..<m] ! k) [0..<m] = map (\<lambda>k. g (m * n + k)) [0..<m]"
    by (rule map_cong [OF refl]) simp
  show ?thesis
    using assms(1) by (simp add: linear_forward_def Linear_def w const_rows b)
qed

lemma length_concat_replicate: "length (concat (replicate B r)) = B * length r"
  by (induction B) simp_all

lemma nth_concat_replicate:
  "j < B * length r \<Longrightarrow> concat (replicate B r) ! j = r ! (j mod length r)"
proof (induction B arbitrary: j)
  case 0
  then show ?case by simp
next
  case (Suc B)
  show ?case
  proof (cases "j < length r")
    case True
    then show ?thesis by (simp add: nth_append)
  next
    case False
    then have "j - length r < B * length r" using Suc.prems by simp
    then have "concat (replicate B r) ! (j - length r) = r ! ((j - length r) mod length r)"
      by (rule Suc.IH)
    then show ?thesis using False by (simp add: nth_append le_mod_geq)
  qed
qed

lemma lane_concat_replicate:
  assumes "i < B" "length r = C"
  shows "lane (concat (replicate B r)) C 1 i = r"
proof (rule nth_equalityI)
  show "length (lane (concat (replicate B r)) C 1 i) = length r"
    by (simp add: lane_def assms(2))
next
  fix c assume "c < length (lane (concat (replicate B r)) C 1 i)"
  then have c: "c < C" by (simp add: lane_def)
  have "Suc i * C \<le> B * C" using assms(1) by (simp add: Suc_leI mult_le_mono1 del: mult_Suc)
  then have "i * C + c < B * length r" using c assms(2) by simp
  then have "concat (replicate B r) ! (i * C + c) = r ! ((i * C + c) mod length r)"
    by (rule nth_concat_replicate)
  then show "lane (concat (replicate B r)) C 1 i ! c = r ! c"
    using c assms(2) by (simp add: lane_def)
qed

lemma log_softmax_rows:
  assumes "length r = C" "0 < C"
  shows "log_softmax \<lparr>shape = [B, C], data = concat (replicate B r)\<rparr>
       = Inr \<lparr>shape = [B, C],
              data = concat (replicate B (map (\<lambda>v. ln (exp v / sum_list (map exp r))) r))\<rparr>"
proof -
  have "map (\<lambda>j. ln (exp (concat (replicate B r) ! j) /
            sum_list (map exp (lane (concat (replicate B r)) C 1 (j div C))))) [0..<B * C]
      = concat (replicate B (map (\<lambda>v. ln (exp v / sum_list (map exp r))) r))"
  proof (rule nth_equalityI)
    show "length (map (\<lambda>j. ln (exp (concat (replicate B r) ! j) /
            sum_list (map exp (lane (concat (replicate B r)) C 1 (j div C))))) [0..<B * C])
        = length (concat (replicate B (map (\<lambda>v. ln (exp v / sum_list (map exp r))) r)))"
      by (simp add: length_concat_replicate assms(1))
  next
    fix j assume "j < length (map (\<lambda>j. ln (exp (concat (replicate B r) ! j) /
            sum_list (map exp (lane (concat (replicate B r)) C 1 (j div C))))) [0..<B * C])"
    then have j: "j < B * C" by simp
    then have d: "j div C < B" using assms(2) by (simp add: less_mult_imp_div_less)
    have m: "j mod C < C" using assms(2) by simp
    have l: "lane (concat (replicate B r)) C 1 (j div C) = r"
      by (rule lane_concat_replicate [OF d assms(1)])
    have x: "concat (replicate B r) ! j = r ! (j mod C)"
      using nth_concat_replicate [of j B r] j assms(1) by simp
    have y: "concat (replicate B (map (\<lambda>v. ln (exp v / sum_list (map exp r))) r)) ! j
        = map (\<lambda>v. ln (exp v / sum_list (map exp r))) r ! (j mod C)"
      using nth_concat_replicate [of j B "map (\<lambda>v. ln (exp v / sum_list (map exp r))) r"] j assms(1)
      by simp
    show "map (\<lambda>j. ln (exp (concat (replicate B r) ! j) /
            sum_list (map exp (lane (concat (replicate B r)) C 1 (j div C))))) [0..<B * C] ! j
        = concat (replicate B (map (\<lambda>v. ln (exp v / sum_list (map exp r))) r)) ! j"
      using j m by (simp add: l [unfolded One_nat_def] x y assms(1))
  qed
  then show ?thesis
    using log_softmax_matrix [of "\<lparr>shape = [B, C], data = concat (replicate B r)\<rparr>" B C]
    by (simp add: length_concat_replicate assms(1))
qed

lemma class0_forward:
  assumes "shape x = b # rest" "0 < b" "length (data x) = b * 784"
  shows "Classifier_forward class0_classifier x
       = Inr \<lparr>shape = [b, 10],
              data = concat (replicate b
                       (map (\<lambda>v. ln (exp v / sum_list (map exp class0_scores))) class0_scores))\<rparr>"
proof -
  have v: "view_flat x = Inr \<lparr>shape = [b, 784], data = data x\<rparr>"
    by (rule view_flat_ok [OF assms])
  have l1: "linear_forward (Linear 784 256 (\<lambda>k. 0)) \<lparr>shape = [b, 784], data = data x\<rparr>
      = Inr \<lparr>shape = [b, 256], data = replicate (b * 256) 0\<rparr>"
    by (rule zero_linear_forward) simp
  have l2: "linear_forward (Linear 256 128 (\<lambda>k. 0)) \<lparr>shape = [b, 256], data = replicate (b * 256) 0\<rparr>
      = Inr \<lparr>shape = [b, 128], data = replicate (b * 128) 0\<rparr>"
    by (rule zero_linear_forward) simp
  have l3: "linear_forward (Linear 128 64 (\<lambda>k. 0)) \<lparr>shape = [b, 128], data = replicate (b * 128) 0\<rparr>
      = Inr \<lparr>shape = [b, 64], data = replicate (b * 64) 0\<rparr>"
    by (rule zero_linear_forward) simp
  have r: "map (\<lambda>k. if 10 * 64 + k = 640 then 1 else (0::real)) [0..<10] = class0_scores"
    by (simp add: class0_scores_def upt_rec)
  have l4: "linear_forward (Linear 64 10 (\<lambda>k. if k = 640 then 1 else 0))
              \<lparr>shape = [b, 64], data = replicate (b * 64) 0\<rparr>
      = Inr \<lparr>shape = [b, 10], data = concat (replicate b class0_scores)\<rparr>"
    using zero_weight_linear_forward [of "\<lparr>shape = [b, 64], data = replicate (b * 64) 0\<rparr>" b 64 10
        "\<lambda>k. if k = 640 then 1 else 0"]
    by (simp only: r) simp
  have ls: "log_softmax \<lparr>shape = [b, 10], data = concat (replicate b class0_scores)\<rparr>
      = Inr \<lparr>shape = [b, 10],
              data = concat (replicate b
                       (map (\<lambda>v. ln (exp v / sum_list (map exp class0_scores))) class0_scores))\<rparr>"
    by (rule log_softmax_rows) (simp_all add: class0_scores_def)
  show ?thesis
    by (simp add: Classifier_forward_def class0_classifier_def Classifier_init_def ebind_def
        v l1 l2 l3 l4 ls relu_zero)
qed

lemma argmax_from_keep:
  "\<forall>y\<in>set ys. y \<le> snd best \<Longrightarrow> argmax_from best k ys = best"
  by (induction ys arbitrary: k) (simp_all add: not_less)

lemma top1_first_largest: "\<forall>y\<in>set xs. y \<le> x \<Longrightarrow> top1 (x # xs) = (0, x)"
  by (simp add: argmax_from_keep)

lemma predicted_class_rows:
  assumes "i < B" "length r = C" "0 < C"
  shows "predicted_class \<lparr>shape = [B, C], data = concat (replicate B r)\<rparr> i = fst (top1 r)"
proof -
  define T :: "real tensor" where "T = \<lparr>shape = [B, C], data = concat (replicate B r)\<rparr>"
  have c: "data T = concat (replicate B r)" by (simp add: T_def)
  have b: "lane (concat (replicate B r)) C 1 i = r"
    by (rule lane_concat_replicate [OF assms(1) assms(2)])
  have a: "lane (data T) C 1 i = row T i"
    by (rule lane_row [where B = B]) (simp_all add: assms T_def length_concat_replicate)
  have "row T i = r" using a [unfolded c] b by simp
  then show ?thesis by (simp add: predicted_class_def T_def)
qed

lemma class0_probabilities_top1:
  "fst (top1 (map exp (map (\<lambda>v. ln (exp v / sum_list (map exp class0_scores))) class0_scores))) = 0"
proof -
  define S where "S = sum_list (map exp class0_scores)"
  have S: "0 < S" unfolding S_def by (rule sum_exp_pos) (simp add: class0_scores_def)
  have h: "exp (ln (exp v / S)) = exp v / S" for v :: real
    using S by simp
  have "map exp (map (\<lambda>v. ln (exp v / S)) class0_scores)
      = exp 1 / S # replicate 9 (exp 0 / S)"
    using S by (simp add: class0_scores_def numeral_eq_Suc)
  moreover have "\<forall>y\<in>set (replicate 9 (exp 0 / S)). y \<le> exp 1 / S"
    using S by (simp add: divide_right_mono)
  ultimately show ?thesis
    unfolding S_def [symmetric] by (simp only: top1_first_largest fst_conv)
qed

section \<open>Properties of the reported test accuracy\<close>

lemma torch_exp_shape: "shape (torch_exp t) = shape t"
  by (simp add: torch_exp_def)

lemma torch_exp_length: "length (data (torch_exp t)) = length (data t)"
  by (simp add: torch_exp_def)

lemma batch_okD:
  assumes "batch_ok fw p mode batch"
  shows "\<exists>log_ps C l. model_forward fw p mode (fst batch) = Inr log_ps \<and>
           shape log_ps = [length (data (snd batch)), C] \<and>
           length (data log_ps) = length (data (snd batch)) * C \<and> 0 < C \<and>
           criterion fw log_ps (snd batch) = Inr l"
  using assms
  by (auto simp: batch_ok_def wf_tensor_def split: sum.splits list.splits)

lemma validate_batch_ok:
  assumes "batch_ok fw (params s) (training s) batch" "0 < length (data (snd batch))"
  shows "\<exists>l. validate_batch fw s (tloss, Some a) batch =
           (s\<lparr>trace := trace s @ [Forward, Loss l]\<rparr>,
            Inr (fadd tloss l,
                 Some (a + real (batch_correct fw (params s) (training s) batch)
                           / real (length (data (snd batch))))))"
proof -
  define B where "B = length (data (snd batch))"
  obtain log_ps C l where f: "model_forward fw (params s) (training s) (fst batch) = Inr log_ps"
    and sh: "shape log_ps = [B, C]" and len: "length (data log_ps) = B * C" and C: "0 < C"
    and cr: "criterion fw log_ps (snd batch) = Inr l"
    using batch_okD [OF assms(1)] unfolding B_def by blast
  have a1: "shape (torch_exp log_ps) = [B, C]" by (simp add: torch_exp_shape sh)
  have a2: "length (data (torch_exp log_ps)) = B * C" by (simp add: torch_exp_length len)
  have a3: "0 < B" using assms(2) by (simp add: B_def)
  have a5: "length (data (snd batch)) = B" by (simp add: B_def)
  have acc: "accuracy (torch_exp log_ps) (snd batch)
      = Inr (Some (real (n_correct (torch_exp log_ps) (snd batch)) / real B))"
    by (rule accuracy_value [OF a1 a2 a3 C a5])
  have bc: "batch_correct fw (params s) (training s) batch = n_correct (torch_exp log_ps) (snd batch)"
    by (simp add: batch_correct_def f)
  have "validate_batch fw s (tloss, Some a) batch =
           (s\<lparr>trace := trace s @ [Forward, Loss l]\<rparr>,
            Inr (fadd tloss l,
                 Some (a + real (batch_correct fw (params s) (training s) batch)
                           / real (length (data (snd batch))))))"
    by (simp add: validate_batch_def f cr acc bc fadd_Some B_def)
  then show ?thesis by blast
qed

lemma validation_pass_ok:
  assumes "\<forall>batch\<in>set loader. batch_ok fw (params s) (training s) batch \<and>
             length (data (snd batch)) = B" "0 < B"
  shows "\<exists>s' tloss'. validation_pass fw s (tloss, Some a) loader =
           (s', Inr (tloss', Some (a + real (total_correct fw (params s) (training s) loader) / real B)))"
  using assms(1)
proof (induction loader arbitrary: s tloss a)
  case Nil
  show ?case by (simp add: total_correct_def)
next
  case (Cons batch rest)
  have ok: "batch_ok fw (params s) (training s) batch" and B: "length (data (snd batch)) = B"
    using Cons.prems by simp_all
  obtain l where v: "validate_batch fw s (tloss, Some a) batch =
           (s\<lparr>trace := trace s @ [Forward, Loss l]\<rparr>,
            Inr (fadd tloss l,
                 Some (a + real (batch_correct fw (params s) (training s) batch) / real B)))"
    using validate_batch_ok [OF ok, of tloss a] assms(2) B by auto
  define s1 where "s1 = s\<lparr>trace := trace s @ [Forward, Loss l]\<rparr>"
  have same: "params s1 = params s" "training s1 = training s" by (simp_all add: s1_def)
  have "\<forall>batch\<in>set rest. batch_ok fw (params s1) (training s1) batch \<and>
             length (data (snd batch)) = B"
    using Cons.prems by (simp add: same)
  from Cons.IH [OF this, of "fadd tloss l"
      "a + real (batch_correct fw (params s) (training s) batch) / real B"]
  obtain s' tloss' where r: "validation_pass fw s1 (fadd tloss l,
        Some (a + real (batch_correct fw (params s) (training s) batch) / real B)) rest
      = (s', Inr (tloss', Some (a + real (batch_correct fw (params s) (training s) batch) / real B
            + real (total_correct fw (params s1) (training s1) rest) / real B)))"
    by blast
  have "validation_pass fw s (tloss, Some a) (batch # rest)
      = (s', Inr (tloss', Some (a + real (total_correct fw (params s) (training s) (batch # rest)) / real B)))"
    by (simp add: v r [unfolded s1_def] same [unfolded s1_def] total_correct_def add_divide_distrib add.assoc)
  then show ?case by blast
qed

lemma ceil_div_exact:
  assumes "0 < (b::nat)"
  shows "(b * q + b - 1) div b = q"
proof -
  have "b * q + b - 1 = (b - 1) + q * b" using assms by (simp add: mult.commute)
  also have "\<dots> div b = q + (b - 1) div b"
    using assms by (simp only: div_mult_self1 [OF less_imp_neq [OF assms, symmetric]])
  also have "(b - 1) div b = 0" using assms by simp
  finally show ?thesis by simp
qed

lemma DataLoader_even:
  assumes "DataLoader dataset batch_size = Inr loader" "dataset \<noteq> []"
    and "batch_size dvd length dataset"
  shows "0 < batch_size \<and> loader \<noteq> [] \<and> length loader * batch_size = length dataset \<and>
         (\<forall>batch\<in>set loader. length (data (snd batch)) = batch_size)"
proof -
  have pos: "0 < batch_size" using assms(1) by (auto simp: DataLoader_def split: if_splits)
  obtain q where q: "length dataset = batch_size * q" using assms(3) by (auto simp: dvd_def)
  have qpos: "0 < q" using q assms(2) by (cases q) simp_all
  have n: "(length dataset + batch_size - 1) div batch_size = q"
    using ceil_div_exact [OF pos, of q] by (simp add: q)
  have l: "loader = map (\<lambda>k. collate (take batch_size (drop (k * batch_size) dataset))) [0..<q]"
    using assms(1) pos n by (simp add: DataLoader_def)
  have sz: "length (data (snd (collate (take batch_size (drop (k * batch_size) dataset))))) = batch_size"
    if "k < q" for k
  proof -
    have "Suc k * batch_size \<le> q * batch_size" using that by (simp add: Suc_leI mult_le_mono1 del: mult_Suc)
    then have "batch_size \<le> length dataset - k * batch_size"
      using q by (simp add: mult.commute)
    then show ?thesis by (simp add: collate_def)
  qed
  have "\<forall>batch\<in>set loader. length (data (snd batch)) = batch_size"
    using sz by (auto simp: l)
  moreover have "loader \<noteq> []" using qpos by (simp add: l)
  moreover have "length loader * batch_size = length dataset" by (simp add: l q mult.commute)
  ultimately show ?thesis using pos by simp
qed

lemma test_accuracy_equal_batches:
  assumes "DataLoader testset batch_size = Inr testloader" "testset \<noteq> []"
    and "batch_size dvd length testset"
    and "\<forall>batch\<in>set testloader. batch_ok fw (params s) (training s) batch"
  shows "test_accuracy fw s testloader =
           Inr (Some (real (total_correct fw (params s) (training s) testloader)
                        / real (length testset)))"
proof -
  have d: "0 < batch_size" "testloader \<noteq> []" "length testloader * batch_size = length testset"
      "\<forall>batch\<in>set testloader. length (data (snd batch)) = batch_size"
    using DataLoader_even [OF assms(1) assms(2) assms(3)] by simp_all
  have "\<forall>batch\<in>set testloader. batch_ok fw (params s) (training s) batch \<and>
             length (data (snd batch)) = batch_size"
    using assms(4) d(4) by simp
  from validation_pass_ok [OF this d(1), of "Some 0" 0]
  obtain s' tloss' where v: "validation_pass fw s (Some 0, Some 0) testloader =
           (s', Inr (tloss', Some (0 + real (total_correct fw (params s) (training s) testloader)
                                  / real batch_size)))"
    by blast
  have n: "length testloader \<noteq> 0" using d(2) by simp
  have "real (total_correct fw (params s) (training s) testloader) / real batch_size
          / real (length testloader)
       = real (total_correct fw (params s) (training s) testloader) / real (length testset)"
    by (simp add: d(3) [symmetric] mult.commute)
  then show ?thesis
    using n by (simp add: test_accuracy_def validation_report_def v fdiv_def ebind_def)
qed

lemma DataLoader_batches:
  assumes "DataLoader dataset batch_size = Inr loader" "dataset \<noteq> []"
  shows "loader \<noteq> [] \<and> (\<forall>batch\<in>set loader. 0 < length (data (snd batch)))"
proof -
  have pos: "0 < batch_size" using assms(1) by (auto simp: DataLoader_def split: if_splits)
  define n where "n = (length dataset + batch_size - 1) div batch_size"
  have l: "loader = map (\<lambda>k. collate (take batch_size (drop (k * batch_size) dataset))) [0..<n]"
    using assms(1) pos by (simp add: DataLoader_def n_def)
  have len: "1 \<le> length dataset" using assms(2) by (cases dataset) simp_all
  have "batch_size \<le> length dataset + batch_size - 1" using len by linarith
  then have "1 * batch_size \<le> length dataset + batch_size - 1" by simp
  then have "1 \<le> n" unfolding n_def using pos by (simp only: less_eq_div_iff_mult_less_eq)
  then have ne: "loader \<noteq> []" by (simp add: l)
  have sz: "0 < length (data (snd (collate (take batch_size (drop (k * batch_size) dataset)))))"
    if "k < n" for k
  proof -
    have "Suc k \<le> (length dataset + batch_size - 1) div batch_size" using that by (simp add: n_def)
    then have "Suc k * batch_size \<le> length dataset + batch_size - 1"
      using pos by (simp only: less_eq_div_iff_mult_less_eq)
    then have "k * batch_size < length dataset" using pos by simp
    then show ?thesis using pos by (simp add: collate_def)
  qed
  have "\<forall>batch\<in>set loader. 0 < length (data (snd batch))"
    using sz by (auto simp: l)
  then show ?thesis using ne by simp
qed

lemma validation_pass_mean:
  assumes "\<forall>batch\<in>set loader. batch_ok fw (params s) (training s) batch \<and>
             0 < length (data (snd batch))"
  shows "\<exists>s' tloss'. validation_pass fw s (tloss, Some a) loader =
           (s', Inr (tloss', Some (a + sum_list (map (\<lambda>batch.
                real (batch_correct fw (params s) (training s) batch)
                  / real (length (data (snd batch)))) loader))))"
  using assms
proof (induction loader arbitrary: s tloss a)
  case Nil
  show ?case by simp
next
  case (Cons batch rest)
  have ok: "batch_ok fw (params s) (training s) batch" and B: "0 < length (data (snd batch))"
    using Cons.prems by simp_all
  define q where "q = real (batch_correct fw (params s) (training s) batch)
                        / real (length (data (snd batch)))"
  obtain l where v: "validate_batch fw s (tloss, Some a) batch =
           (s\<lparr>trace := trace s @ [Forward, Loss l]\<rparr>, Inr (fadd tloss l, Some (a + q)))"
    using validate_batch_ok [OF ok B, of tloss a] unfolding q_def by blast
  define s1 where "s1 = s\<lparr>trace := trace s @ [Forward, Loss l]\<rparr>"
  have same: "params s1 = params s" "training s1 = training s" by (simp_all add: s1_def)
  have "\<forall>batch\<in>set rest. batch_ok fw (params s1) (training s1) batch \<and>
             0 < length (data (snd batch))"
    using Cons.prems by (simp add: same)
  from Cons.IH [OF this, of "fadd tloss l" "a + q"]
  obtain s' tloss' where r: "validation_pass fw s1 (fadd tloss l, Some (a + q)) rest
      = (s', Inr (tloss', Some (a + q + sum_list (map (\<lambda>batch.
                real (batch_correct fw (params s1) (training s1) batch)
                  / real (length (data (snd batch)))) rest))))"
    by blast
  have "validation_pass fw s (tloss, Some a) (batch # rest)
      = (s', Inr (tloss', Some (a + sum_list (map (\<lambda>batch.
                real (batch_correct fw (params s) (training s) batch)
                  / real (length (data (snd batch)))) (batch # rest)))))"
    using r by (simp add: v s1_def [symmetric] same q_def [symmetric] add.assoc)
  then show ?case by blast
qed

lemma test_accuracy_mean:
  assumes "DataLoader testset batch_size = Inr testloader" "testset \<noteq> []"
    and "\<forall>batch\<in>set testloader. batch_ok fw (params s) (training s) batch"
  shows "test_accuracy fw s testloader =
           Inr (Some (sum_list (map (\<lambda>batch.
                         real (batch_correct fw (params s) (training s) batch)
                           / real (length (data (snd batch)))) testloader)
                      / real (length testloader)))"
proof -
  have d: "testloader \<noteq> []" "\<forall>batch\<in>set testloader. 0 < length (data (snd batch))"
    using DataLoader_batches [OF assms(1) assms(2)] by simp_all
  have "\<forall>batch\<in>set testloader. batch_ok fw (params s) (training s) batch \<and>
             0 < length (data (snd batch))"
    using assms(3) d(2) by simp
  from validation_pass_mean [OF this, of "Some 0" 0]
  obtain s' tloss' where v: "validation_pass fw s (Some 0, Some 0) testloader =
           (s', Inr (tloss', Some (0 + sum_list (map (\<lambda>batch.
                real (batch_correct fw (params s) (training s) batch)
                  / real (length (data (snd batch)))) testloader))))"
    by blast
  have n: "length testloader \<noteq> 0" using d(1) by simp
  show ?thesis
    using n by (simp add: test_accuracy_def validation_report_def v fdiv_def ebind_def)
qed

lemma NLLLoss_ok:
  assumes "shape inp = [N, C]" "shape target = [N]" "\<forall>i. i < N \<longrightarrow> data target ! i < C"
  shows "\<exists>l. NLLLoss inp target = Inr l"
  using assms by (simp add: NLLLoss_def list_ex_iff not_le)

lemma idle_forward: "model_forward idle_framework p mode x = Classifier_forward p x"
  by (simp add: idle_framework_def part5_framework_def)

lemma idle_criterion: "criterion idle_framework = NLLLoss"
  by (simp add: idle_framework_def part5_framework_def)

lemma idle_prepare: "prepare idle_framework x = Inr x"
  by (simp add: idle_framework_def part5_framework_def)

lemma class0_batch_ok:
  assumes "shape x = b # rest" "0 < b" "length (data x) = b * 784"
    and "shape labels = [b]" "length (data labels) = b" "\<forall>i. i < b \<longrightarrow> data labels ! i < 10"
  shows "batch_ok idle_framework class0_classifier mode (x, labels)"
proof -
  define out where "out = \<lparr>shape = [b, 10],
              data = concat (replicate b
                       (map (\<lambda>v. ln (exp v / sum_list (map exp class0_scores))) class0_scores))\<rparr>"
  have f: "Classifier_forward class0_classifier x = Inr out"
    unfolding out_def by (rule class0_forward [OF assms(1) assms(2) assms(3)])
  have so: "shape out = [b, 10]" by (simp add: out_def)
  have lo: "length (data out) = b * 10"
    by (simp add: out_def length_concat_replicate class0_scores_def)
  obtain l where "NLLLoss out labels = Inr l"
    using NLLLoss_ok [OF so assms(4)] assms(6) by auto
  then show ?thesis
    by (simp add: batch_ok_def idle_forward idle_criterion f so lo assms(5) wf_tensor_def)
qed

lemma class0_batch_correct:
  assumes "shape x = b # rest" "0 < b" "length (data x) = b * 784"
  shows "batch_correct idle_framework class0_classifier mode (x, labels)
       = length (filter (\<lambda>i. data labels ! i = 0) [0..<b])"
proof -
  define lp where "lp = map (\<lambda>v. ln (exp v / sum_list (map exp class0_scores))) class0_scores"
  have f: "Classifier_forward class0_classifier x
       = Inr \<lparr>shape = [b, 10], data = concat (replicate b lp)\<rparr>"
    unfolding lp_def by (rule class0_forward [OF assms(1) assms(2) assms(3)])
  have e: "torch_exp \<lparr>shape = [b, 10], data = concat (replicate b lp)\<rparr>
      = \<lparr>shape = [b, 10], data = concat (replicate b (map exp lp))\<rparr>"
    by (simp add: torch_exp_def map_concat)
  have p: "predicted_class \<lparr>shape = [b, 10], data = concat (replicate b (map exp lp))\<rparr> i = 0"
    if "i < b" for i
    using predicted_class_rows [OF that, of "map exp lp" 10] class0_probabilities_top1
    by (simp add: lp_def class0_scores_def)
  have "filter (\<lambda>i. predicted_class \<lparr>shape = [b, 10], data = concat (replicate b (map exp lp))\<rparr> i
                    = data labels ! i) [0..<b]
      = filter (\<lambda>i. data labels ! i = 0) [0..<b]"
    using p by (auto intro!: filter_cong)
  then show ?thesis
    by (simp add: batch_correct_def idle_forward f e n_correct_def)
qed

lemma collate_two:
  "collate [(black_image, a), (black_image, b)] =
     (\<lparr>shape = [2, 1, 28, 28], data = replicate 784 0 @ replicate 784 0\<rparr>,
      \<lparr>shape = [2], data = [a, b]\<rparr>)"
  by (simp add: collate_def black_image_def)

lemma collate_one:
  "collate [(black_image, a)] =
     (\<lparr>shape = [1, 1, 28, 28], data = replicate 784 0\<rparr>, \<lparr>shape = [1], data = [a]\<rparr>)"
  by (simp add: collate_def black_image_def)

lemma DataLoader_three_examples: "DataLoader three_examples 2 = Inr three_examples_loader"
  by (simp add: DataLoader_def three_examples_def three_examples_loader_def upt_rec)

lemma DataLoader_four_examples: "DataLoader four_examples 2 = Inr four_examples_loader"
  by (simp add: DataLoader_def four_examples_def four_examples_loader_def upt_rec)

lemma batch_ok_two:
  assumes "a < 10" "b < 10"
  shows "batch_ok idle_framework class0_classifier mode (collate [(black_image, a), (black_image, b)])"
  unfolding collate_two
  by (rule class0_batch_ok [where b = 2 and rest = "[1, 28, 28]"])
     (simp_all add: assms less_Suc_eq numeral_2_eq_2 nth_Cons')

lemma batch_ok_one:
  assumes "a < 10"
  shows "batch_ok idle_framework class0_classifier mode (collate [(black_image, a)])"
  unfolding collate_one
  by (rule class0_batch_ok [where b = 1 and rest = "[1, 28, 28]"]) (simp_all add: assms)

lemma batch_correct_two:
  "batch_correct idle_framework class0_classifier mode (collate [(black_image, a), (black_image, b)])
     = (if a = 0 then 1 else 0) + (if b = 0 then 1 else 0)"
  unfolding collate_two
  using class0_batch_correct [of "\<lparr>shape = [2, 1, 28, 28], data = replicate 784 0 @ replicate 784 0\<rparr>"
      2 "[1, 28, 28]" mode "\<lparr>shape = [2], data = [a, b]\<rparr>"]
  by (simp add: upt_rec)

lemma batch_correct_one:
  "batch_correct idle_framework class0_classifier mode (collate [(black_image, a)])
     = (if a = 0 then 1 else 0)"
  unfolding collate_one
  using class0_batch_correct [of "\<lparr>shape = [1, 1, 28, 28], data = replicate 784 0\<rparr>"
      1 "[1, 28, 28]" mode "\<lparr>shape = [1], data = [a]\<rparr>"]
  by (simp add: upt_rec)

lemma test_accuracy_three_examples:
  "test_accuracy idle_framework class0_state three_examples_loader = Inr (Some (1 / 2))"
proof -
  define b1 where "b1 = collate [(black_image, 1), (black_image, 1)]"
  define b2 where "b2 = collate [(black_image, 0)]"
  have p: "params class0_state = class0_classifier" "training class0_state = True"
    by (simp_all add: class0_state_def)
  have n1: "length (data (snd b1)) = 2" and n2: "length (data (snd b2)) = 1"
    by (simp_all add: b1_def b2_def collate_two collate_one)
  have ok1: "batch_ok idle_framework (params class0_state) (training class0_state) b1"
    unfolding p b1_def by (rule batch_ok_two) simp_all
  have c1: "batch_correct idle_framework (params class0_state) (training class0_state) b1 = 0"
    unfolding p b1_def by (simp add: batch_correct_two)
  have c2: "batch_correct idle_framework class0_classifier True b2 = 1"
    unfolding b2_def by (simp add: batch_correct_one)
  obtain l1 where v1: "validate_batch idle_framework class0_state (Some 0, Some 0) b1 =
      (class0_state\<lparr>trace := trace class0_state @ [Forward, Loss l1]\<rparr>, Inr (fadd (Some 0) l1, Some 0))"
    using validate_batch_ok [OF ok1, of "Some 0" 0] by (auto simp: n1 c1)
  define s1 where "s1 = class0_state\<lparr>trace := trace class0_state @ [Forward, Loss l1]\<rparr>"
  have p1: "params s1 = class0_classifier" "training s1 = True"
    by (simp_all add: s1_def class0_state_def)
  have ok2: "batch_ok idle_framework (params s1) (training s1) b2"
    unfolding p1 b2_def by (rule batch_ok_one) simp
  obtain l2 where v2: "validate_batch idle_framework s1 (fadd (Some 0) l1, Some 0) b2 =
      (s1\<lparr>trace := trace s1 @ [Forward, Loss l2]\<rparr>, Inr (fadd (fadd (Some 0) l1) l2, Some 1))"
    using validate_batch_ok [OF ok2, of "fadd (Some 0) l1" 0] by (auto simp: n2 p1 c2)
  have "validation_pass idle_framework class0_state (Some 0, Some 0) [b1, b2] =
      (s1\<lparr>trace := trace s1 @ [Forward, Loss l2]\<rparr>, Inr (fadd (fadd (Some 0) l1) l2, Some 1))"
    by (simp add: v1 [folded s1_def] v2)
  then show ?thesis
    by (simp add: test_accuracy_def validation_report_def three_examples_loader_def
        b1_def b2_def fdiv_def ebind_def)
qed

lemma total_correct_three_examples:
  "total_correct idle_framework (params class0_state) (training class0_state) three_examples_loader = 1"
  by (simp add: total_correct_def three_examples_loader_def class0_state_def
      batch_correct_two batch_correct_one)

lemma total_examples_three_examples: "total_examples three_examples_loader = 3"
  by (simp add: total_examples_def three_examples_loader_def collate_two collate_one)

lemma test_accuracy_four_examples:
  "test_accuracy idle_framework class0_state four_examples_loader = Inr (Some (1 / 2))"
  using test_accuracy_equal_batches [OF DataLoader_four_examples, of idle_framework class0_state]
    batch_ok_two [of 1 0 True] batch_ok_two [of 0 3 True]
  by (simp add: four_examples_def four_examples_loader_def class0_state_def total_correct_def
      batch_correct_two)

section \<open>An epoch of gradient descent on the biases of the output layer\<close>














section \<open>The claims about the loops\<close>

text \<open>
  Claim C4, as stated: the reported test accuracy, \<open>accuracy/len(testloader)\<close>, is the
  fraction of all test examples whose top-1 class is their label, also when the size of
  the test set is not a multiple of the batch size. It fails: three test examples in
  batches of two, of which the model gets only the third right, are reported with
  accuracy \<open>(0/2 + 1/1) / 2 = 1/2\<close>, while the fraction is \<open>1/3\<close>.
\<close>

theorem test_accuracy_counterexample:
  "DataLoader three_examples 2 = Inr three_examples_loader \<and>
   test_accuracy idle_framework class0_state three_examples_loader = Inr (Some (1 / 2)) \<and>
   real (total_correct idle_framework (params class0_state) (training class0_state)
           three_examples_loader) / real (total_examples three_examples_loader) = 1 / 3 \<and>
   test_accuracy idle_framework class0_state three_examples_loader \<noteq>
     Inr (Some (real (total_correct idle_framework (params class0_state) (training class0_state)
                        three_examples_loader) / real (total_examples three_examples_loader)))"
  by (simp add: DataLoader_three_examples test_accuracy_three_examples
      total_correct_three_examples total_examples_three_examples)

text \<open>
  Claim C4, amended: for a non-empty test set on which the validation loop gets through
  every batch, the reported test accuracy is the unweighted mean of the accuracies of the
  batches, each the number of examples of the batch whose top-1 class is their label
  divided by the size of the batch; when the size of the test set is a multiple of the
  batch size, so that all batches have the same size, that is the number of test examples
  whose top-1 class is their label divided by the size of the test set.
\<close>

theorem test_accuracy_is_mean_of_batch_accuracies:
  assumes "DataLoader testset batch_size = Inr testloader" "testset \<noteq> []"
    and "\<forall>batch\<in>set testloader. batch_ok fw (params s) (training s) batch"
  shows "test_accuracy fw s testloader =
           Inr (Some (sum_list (map (\<lambda>batch.
                         real (batch_correct fw (params s) (training s) batch)
                           / real (length (data (snd batch)))) testloader)
                      / real (length testloader))) \<and>
         (batch_size dvd length testset \<longrightarrow>
          test_accuracy fw s testloader =
            Inr (Some (real (total_correct fw (params s) (training s) testloader)
                         / real (length testset))))"
  using test_accuracy_mean [OF assms] test_accuracy_equal_batches [OF assms(1) assms(2) _ assms(3)]
  by blast

theorem test_accuracy_is_mean_of_batch_accuracies_witness:
  "DataLoader four_examples 2 = Inr four_examples_loader \<and> four_examples \<noteq> [] \<and>
   batch_ok idle_framework (params class0_state) (training class0_state)
     (collate [(black_image, 1), (black_image, 0)]) \<and>
   batch_ok idle_framework (params class0_state) (training class0_state)
     (collate [(black_image, 0), (black_image, 3)]) \<and>
   2 dvd length four_examples \<and>
   test_accuracy idle_framework class0_state four_examples_loader =
     Inr (Some (sum_list (map (\<lambda>batch.
                   real (batch_correct idle_framework (params class0_state) (training class0_state)
                           batch) / real (length (data (snd batch)))) four_examples_loader)
                / real (length four_examples_loader))) \<and>
   test_accuracy idle_framework class0_state four_examples_loader =
     Inr (Some (real (total_correct idle_framework (params class0_state) (training class0_state)
                        four_examples_loader) / real (length four_examples))) \<and>
   DataLoader three_examples 2 = Inr three_examples_loader \<and> three_examples \<noteq> [] \<and>
   batch_ok idle_framework (params class0_state) (training class0_state)
     (collate [(black_image, 1), (black_image, 1)]) \<and>
   batch_ok idle_framework (params class0_state) (training class0_state)
     (collate [(black_image, 0)]) \<and>
   test_accuracy idle_framework class0_state three_examples_loader =
     Inr (Some (sum_list (map (\<lambda>batch.
                   real (batch_correct idle_framework (params class0_state) (training class0_state)
                           batch) / real (length (data (snd batch)))) three_examples_loader)
                / real (length three_examples_loader)))"
proof -
  have p: "params class0_state = class0_classifier" by (simp add: class0_state_def)
  have ok1: "batch_ok idle_framework (params class0_state) (training class0_state)
     (collate [(black_image, 1), (black_image, 0)])"
    unfolding p by (rule batch_ok_two) simp_all
  have ok2: "batch_ok idle_framework (params class0_state) (training class0_state)
     (collate [(black_image, 0), (black_image, 3)])"
    unfolding p by (rule batch_ok_two) simp_all
  have ok3: "batch_ok idle_framework (params class0_state) (training class0_state)
     (collate [(black_image, 1), (black_image, 1)])"
    unfolding p by (rule batch_ok_two) simp_all
  have ok4: "batch_ok idle_framework (params class0_state) (training class0_state)
     (collate [(black_image, 0)])"
    unfolding p by (rule batch_ok_one) simp_all
  have all4: "\<forall>batch\<in>set four_examples_loader.
      batch_ok idle_framework (params class0_state) (training class0_state) batch"
    using ok1 ok2 by (simp add: four_examples_loader_def)
  have all3: "\<forall>batch\<in>set three_examples_loader.
      batch_ok idle_framework (params class0_state) (training class0_state) batch"
    using ok3 ok4 by (simp add: three_examples_loader_def)
  have ne4: "four_examples \<noteq> []" and dv: "2 dvd length four_examples"
    by (simp_all add: four_examples_def)
  have ne3: "three_examples \<noteq> []" by (simp add: three_examples_def)
  note four = test_accuracy_is_mean_of_batch_accuracies [OF DataLoader_four_examples ne4 all4]
  note three = test_accuracy_is_mean_of_batch_accuracies [OF DataLoader_three_examples ne3 all3]
  show ?thesis
    using four three DataLoader_four_examples DataLoader_three_examples ne3 ne4 dv ok1 ok2 ok3 ok4
    by blast
qed



text \<open>
  Claim C6. The validation loop, in the form of cell 12 and in the form of cell 19, which
  switches between evaluation and training mode, leaves the weights and biases of the
  model, the stored gradients and the state of the optimizer as they were, whether it
  completes or raises.
\<close>

theorem validation_leaves_model_unchanged:
  "params (fst (validation_pass fw s acc testloader)) = params s \<and>
   grads (fst (validation_pass fw s acc testloader)) = grads s \<and>
   opt_state (fst (validation_pass fw s acc testloader)) = opt_state s \<and>
   params (fst (validation_pass_dropout fw s acc testloader)) = params s \<and>
   grads (fst (validation_pass_dropout fw s acc testloader)) = grads s \<and>
   opt_state (fst (validation_pass_dropout fw s acc testloader)) = opt_state s"
  using validation_pass_frame [of fw s acc testloader]
    validation_pass_dropout_frame [of fw s acc testloader] by simp

theorem validation_leaves_model_unchanged_witness:
  "params (fst (validation_pass idle_framework start_state (Some 0, Some 0) three_examples_loader))
     = zero_classifier \<and>
   params (fst (validation_pass_dropout idle_framework start_state (Some 0, Some 0)
                  three_examples_loader)) = zero_classifier"
  using validation_leaves_model_unchanged [of idle_framework start_state "(Some 0, Some 0)"
      three_examples_loader]
  by (simp add: start_state_def)

section \<open>Properties of state dicts and checkpoints\<close>

lemma recorded_eq_iff:
  assumes dx: "distinct (map fst xs)" and dy: "distinct (map fst ys)"
  shows "((\<lambda>kt. (fst kt, f (snd kt))) ` set xs = (\<lambda>kt. (fst kt, f (snd kt))) ` set ys)
       \<longleftrightarrow> (fst ` set xs = fst ` set ys \<and>
            (\<forall>kp\<in>set ys. \<forall>t. map_of xs (fst kp) = Some t \<longrightarrow> f t = f (snd kp)))"
proof
  assume eq: "(\<lambda>kt. (fst kt, f (snd kt))) ` set xs = (\<lambda>kt. (fst kt, f (snd kt))) ` set ys"
  have "fst ` ((\<lambda>kt. (fst kt, f (snd kt))) ` set xs) = fst ` ((\<lambda>kt. (fst kt, f (snd kt))) ` set ys)"
    by (simp only: eq)
  then have keys: "fst ` set xs = fst ` set ys" by (simp add: image_image)
  have "f t = f (snd kp)" if kp: "kp \<in> set ys" and t: "map_of xs (fst kp) = Some t" for kp t
  proof -
    have "(fst kp, t) \<in> set xs" using t dx by simp
    then have "(fst kp, f t) \<in> (\<lambda>kt. (fst kt, f (snd kt))) ` set xs"
      by (rule rev_image_eqI) simp
    then have "(fst kp, f t) \<in> (\<lambda>kt. (fst kt, f (snd kt))) ` set ys" by (simp only: eq)
    then obtain q where q: "q \<in> set ys" "fst q = fst kp" "f (snd q) = f t" by auto
    have "map_of ys (fst kp) = Some (snd q)" using q(1) q(2) dy by (metis map_of_eq_Some_iff prod.collapse)
    moreover have "map_of ys (fst kp) = Some (snd kp)" using kp dy by (metis map_of_eq_Some_iff prod.collapse)
    ultimately show ?thesis using q(3) by simp
  qed
  with keys show "fst ` set xs = fst ` set ys \<and>
            (\<forall>kp\<in>set ys. \<forall>t. map_of xs (fst kp) = Some t \<longrightarrow> f t = f (snd kp))"
    by blast
next
  assume r: "fst ` set xs = fst ` set ys \<and>
            (\<forall>kp\<in>set ys. \<forall>t. map_of xs (fst kp) = Some t \<longrightarrow> f t = f (snd kp))"
  then have keys: "fst ` set xs = fst ` set ys"
    and sh: "\<And>kp t. kp \<in> set ys \<Longrightarrow> map_of xs (fst kp) = Some t \<Longrightarrow> f t = f (snd kp)"
    by blast+
  show "(\<lambda>kt. (fst kt, f (snd kt))) ` set xs = (\<lambda>kt. (fst kt, f (snd kt))) ` set ys"
  proof (rule set_eqI, rule iffI)
    fix z assume "z \<in> (\<lambda>kt. (fst kt, f (snd kt))) ` set xs"
    then obtain kt where kt: "kt \<in> set xs" "z = (fst kt, f (snd kt))" by auto
    have "fst kt \<in> fst ` set ys" using kt(1) keys by force
    then obtain kp where kp: "kp \<in> set ys" "fst kp = fst kt" by auto
    have "map_of xs (fst kp) = Some (snd kt)"
      using kt(1) kp(2) dx by (metis map_of_eq_Some_iff prod.collapse)
    then have "f (snd kt) = f (snd kp)" using sh kp(1) by blast
    then have "z = (fst kp, f (snd kp))" using kt(2) kp(2) by simp
    then show "z \<in> (\<lambda>kt. (fst kt, f (snd kt))) ` set ys" using kp(1) by simp
  next
    fix z assume "z \<in> (\<lambda>kt. (fst kt, f (snd kt))) ` set ys"
    then obtain kp where kp: "kp \<in> set ys" "z = (fst kp, f (snd kp))" by auto
    have "fst kp \<in> fst ` set xs" using kp(1) keys by force
    then obtain kt where kt: "kt \<in> set xs" "fst kt = fst kp" by auto
    have "map_of xs (fst kp) = Some (snd kt)"
      using kt dx by (metis map_of_eq_Some_iff prod.collapse)
    then have "f (snd kt) = f (snd kp)" using sh kp(1) by blast
    then have "z = (fst kt, f (snd kt))" using kp(2) kt(2) by simp
    then show "z \<in> (\<lambda>kt. (fst kt, f (snd kt))) ` set xs" using kt(1) by simp
  qed
qed

lemma keys_hidden_entries:
  "map fst (hidden_entries k ls)
     = concat (map (\<lambda>j. [HiddenLayers j Weight, HiddenLayers j Bias]) [k..<k + length ls])"
proof (induction ls arbitrary: k)
  case Nil
  show ?case by simp
next
  case (Cons l ls)
  have "[k..<k + length (l # ls)] = k # [Suc k..<Suc k + length ls]"
    by (simp add: upt_rec)
  then show ?case by (simp add: Cons.IH layer_entries_def)
qed

lemma distinct_keys_hidden: "distinct (map fst (hidden_entries k ls))"
proof (induction ls arbitrary: k)
  case Nil
  show ?case by simp
next
  case (Cons l ls)
  have "HiddenLayers k p \<notin> set (map fst (hidden_entries (Suc k) ls))" for p
    by (auto simp: keys_hidden_entries)
  then show ?case using Cons.IH [of "Suc k"] by (simp add: layer_entries_def)
qed

lemma hidden_keys_not_output: "Output p \<notin> set (map fst (hidden_entries k ls))"
  by (auto simp: keys_hidden_entries)

lemma distinct_keys_state_dict: "distinct (map fst (state_dict m))"
  using hidden_keys_not_output [of _ 0 "hidden_layers m"]
  by (simp add: state_dict_def distinct_keys_hidden layer_entries_def)

lemma filter_empty_iff: "(filter P xs = []) = (\<forall>x\<in>set xs. \<not> P x)"
  by (simp add: filter_empty_conv)

lemma load_state_dict_outcome:
  assumes "distinct (map fst sd)"
  shows "snd (load_state_dict m sd) =
           (if architecture_matches m sd
            then Inr \<lparr>missing_keys = [], unexpected_keys = []\<rparr>
            else Inl RuntimeError)"
proof -
  define own where "own = state_dict m"
  have dy: "distinct (map fst own)" unfolding own_def by (rule distinct_keys_state_dict)
  have A: "(size_mismatches m sd = []) =
      (\<forall>kp\<in>set own. \<forall>t. map_of sd (fst kp) = Some t \<longrightarrow> shape t = shape (snd kp))"
    by (auto simp: size_mismatches_def own_def filter_empty_iff split: option.splits)
  have B: "(filter (\<lambda>k. k \<notin> set (map fst own)) (map fst sd) = []) = (fst ` set sd \<subseteq> fst ` set own)"
    by (auto simp: filter_empty_iff)
  have C: "(filter (\<lambda>k. map_of sd k = None) (map fst own) = []) = (fst ` set own \<subseteq> fst ` set sd)"
    by (auto simp: filter_empty_iff map_of_eq_None_iff)
  have M: "architecture_matches m sd =
      (fst ` set sd = fst ` set own \<and>
       (\<forall>kp\<in>set own. \<forall>t. map_of sd (fst kp) = Some t \<longrightarrow> shape t = shape (snd kp)))"
    unfolding architecture_matches_def recorded_shapes_def own_def [symmetric] set_map
    by (rule recorded_eq_iff [OF assms dy])
  have ok: "architecture_matches m sd =
      (size_mismatches m sd = [] \<and> filter (\<lambda>k. k \<notin> set (map fst own)) (map fst sd) = [] \<and>
       filter (\<lambda>k. map_of sd k = None) (map fst own) = [])"
    unfolding M A B C by blast
  show ?thesis
  proof (cases "architecture_matches m sd")
    case True
    then show ?thesis
      using ok by (simp add: load_state_dict_def Let_def own_def)
  next
    case False
    then show ?thesis
      using ok by (auto simp: load_state_dict_def Let_def own_def)
  qed
qed

lemma build_layers_wf:
  "list_all2 (\<lambda>l sz. wf_linear (fst sz) (snd sz) l) (build_layers k sizes init) sizes"
  by (induction sizes arbitrary: k) (simp_all add: wf_Linear)

lemma Network_is_Network:
  assumes "Network input_size output_size hidden init = Inr m"
  shows "is_Network input_size output_size hidden m"
  using assms
  by (auto simp: Network_def is_Network_def build_layers_wf wf_Linear split: if_splits)

lemma length_layer_sizes: "hidden \<noteq> [] \<Longrightarrow> length (layer_sizes input_size hidden) = length hidden"
  by (simp add: layer_sizes_def)

lemma snd_layer_sizes:
  "hidden \<noteq> [] \<Longrightarrow> map snd (layer_sizes input_size hidden) = hidden"
  by (simp add: layer_sizes_def)

lemma is_Network_out_features:
  assumes "is_Network input_size output_size hidden m"
  shows "map out_features (hidden_layers m) = hidden"
proof -
  have ne: "hidden \<noteq> []" and
    l2: "list_all2 (\<lambda>l sz. wf_linear (fst sz) (snd sz) l) (hidden_layers m)
           (layer_sizes input_size hidden)"
    using assms by (simp_all add: is_Network_def)
  have "map out_features (hidden_layers m) = map snd (layer_sizes input_size hidden)"
    using l2 by (induction rule: list_all2_induct) (simp_all add: wf_linear_def)
  then show ?thesis using ne by (simp add: snd_layer_sizes)
qed

lemma map_of_hidden_entries_weight:
  "map_of (hidden_entries k0 ls) (HiddenLayers k Weight)
     = (if k0 \<le> k \<and> k < k0 + length ls then Some (weight (ls ! (k - k0))) else None)"
proof (induction ls arbitrary: k0)
  case Nil
  show ?case by simp
next
  case (Cons l ls)
  show ?case
  proof (cases "k = k0")
    case True
    then show ?thesis by (simp add: layer_entries_def)
  next
    case False
    then show ?thesis
      using Cons.IH [of "Suc k0"] by (auto simp: layer_entries_def Suc_diff_le nth_Cons')
  qed
qed

lemma map_of_hidden_entries_bias:
  "map_of (hidden_entries k0 ls) (HiddenLayers k Bias)
     = (if k0 \<le> k \<and> k < k0 + length ls then Some (bias (ls ! (k - k0))) else None)"
proof (induction ls arbitrary: k0)
  case Nil
  show ?case by simp
next
  case (Cons l ls)
  show ?case
  proof (cases "k = k0")
    case True
    then show ?thesis by (simp add: layer_entries_def)
  next
    case False
    then show ?thesis
      using Cons.IH [of "Suc k0"] by (auto simp: layer_entries_def Suc_diff_le nth_Cons')
  qed
qed

lemma map_of_hidden_entries_output: "map_of (hidden_entries k0 ls) (Output p) = None"
  using hidden_keys_not_output [of p k0 ls] by (simp add: map_of_eq_None_iff)

lemma map_of_state_dict_weight:
  "k < length (hidden_layers m) \<Longrightarrow>
     map_of (state_dict m) (HiddenLayers k Weight) = Some (weight (hidden_layers m ! k))"
  by (simp add: state_dict_def map_add_def map_of_hidden_entries_weight layer_entries_def)

lemma map_of_state_dict_bias:
  "k < length (hidden_layers m) \<Longrightarrow>
     map_of (state_dict m) (HiddenLayers k Bias) = Some (bias (hidden_layers m ! k))"
  by (simp add: state_dict_def map_add_def map_of_hidden_entries_bias layer_entries_def)

lemma map_of_state_dict_output:
  "map_of (state_dict m) (Output Weight) = Some (weight (output_layer m))"
  "map_of (state_dict m) (Output Bias) = Some (bias (output_layer m))"
  by (simp_all add: state_dict_def map_add_def map_of_hidden_entries_output layer_entries_def)

lemma length_load_hidden: "length (load_hidden sd k ls) = length ls"
  by (induction ls arbitrary: k) simp_all

lemma load_hidden_nth:
  "j < length ls \<Longrightarrow> load_hidden sd k ls ! j = load_layer sd (HiddenLayers (k + j)) (ls ! j)"
proof (induction ls arbitrary: k j)
  case Nil
  then show ?case by simp
next
  case (Cons l ls)
  then show ?case by (cases j) simp_all
qed

lemma load_layer_same:
  assumes "wf_linear a b l'" "wf_linear a b l"
    and "map_of sd (name Weight) = Some (weight l)" "map_of sd (name Bias) = Some (bias l)"
  shows "load_layer sd name l' = l"
  using assms by (cases l, cases l') (simp add: load_layer_def load_param_def wf_linear_def)

lemma is_Network_layers:
  assumes "is_Network input_size output_size hidden m"
  shows "length (hidden_layers m) = length hidden"
    and "j < length hidden \<Longrightarrow>
           wf_linear (fst (layer_sizes input_size hidden ! j)) (snd (layer_sizes input_size hidden ! j))
             (hidden_layers m ! j)"
proof -
  have ne: "hidden \<noteq> []" and
    l2: "list_all2 (\<lambda>l sz. wf_linear (fst sz) (snd sz) l) (hidden_layers m)
           (layer_sizes input_size hidden)"
    using assms by (simp_all add: is_Network_def)
  show len: "length (hidden_layers m) = length hidden"
    using list_all2_lengthD [OF l2] ne by (simp add: length_layer_sizes)
  show "wf_linear (fst (layer_sizes input_size hidden ! j)) (snd (layer_sizes input_size hidden ! j))
             (hidden_layers m ! j)" if "j < length hidden"
    using list_all2_nthD [OF l2, of j] that len by simp
qed

lemma load_hidden_same:
  assumes "is_Network input_size output_size hidden fresh"
    and "is_Network input_size output_size hidden m"
  shows "load_hidden (state_dict m) 0 (hidden_layers fresh) = hidden_layers m"
proof (rule nth_equalityI)
  show "length (load_hidden (state_dict m) 0 (hidden_layers fresh)) = length (hidden_layers m)"
    using is_Network_layers(1) [OF assms(1)] is_Network_layers(1) [OF assms(2)]
    by (simp add: length_load_hidden)
next
  fix j assume "j < length (load_hidden (state_dict m) 0 (hidden_layers fresh))"
  then have j: "j < length hidden"
    using is_Network_layers(1) [OF assms(1)] by (simp add: length_load_hidden)
  then have jf: "j < length (hidden_layers fresh)" and jm: "j < length (hidden_layers m)"
    using is_Network_layers(1) [OF assms(1)] is_Network_layers(1) [OF assms(2)] by simp_all
  have "load_layer (state_dict m) (HiddenLayers j) (hidden_layers fresh ! j) = hidden_layers m ! j"
    by (rule load_layer_same [OF is_Network_layers(2) [OF assms(1) j]
          is_Network_layers(2) [OF assms(2) j]
          map_of_state_dict_weight [OF jm] map_of_state_dict_bias [OF jm]])
  then show "load_hidden (state_dict m) 0 (hidden_layers fresh) ! j = hidden_layers m ! j"
    using jf by (simp add: load_hidden_nth)
qed

lemma load_output_same:
  assumes "is_Network input_size output_size hidden fresh"
    and "is_Network input_size output_size hidden m"
  shows "load_layer (state_dict m) Output (output_layer fresh) = output_layer m"
proof -
  have "wf_linear (last hidden) output_size (output_layer fresh)"
    "wf_linear (last hidden) output_size (output_layer m)"
    using assms by (simp_all add: is_Network_def)
  then show ?thesis
    by (rule load_layer_same) (rule map_of_state_dict_output)+
qed

lemma load_same_model:
  assumes "is_Network input_size output_size hidden fresh"
    and "is_Network input_size output_size hidden m"
  shows "fst (load_state_dict fresh (state_dict m)) = m"
proof -
  have "dropout_p fresh = dropout_p m" using assms by (simp add: is_Network_def)
  then have "fresh\<lparr>hidden_layers := hidden_layers m, output_layer := output_layer m\<rparr> = m"
    by (cases fresh, cases m) simp
  then show ?thesis
    by (simp add: load_state_dict_def Let_def load_hidden_same [OF assms] load_output_same [OF assms])
qed

lemma shapes_hidden_entries:
  assumes "list_all2 (\<lambda>l l'. shape (weight l) = shape (weight l') \<and> shape (bias l) = shape (bias l')) ls ls'"
  shows "map (\<lambda>kt. (fst kt, shape (snd kt))) (hidden_entries k ls)
       = map (\<lambda>kt. (fst kt, shape (snd kt))) (hidden_entries k ls')"
  using assms
  by (induction arbitrary: k rule: list_all2_induct) (simp_all add: layer_entries_def)

lemma same_architecture_matches:
  assumes "is_Network input_size output_size hidden fresh"
    and "is_Network input_size output_size hidden m"
  shows "architecture_matches fresh (state_dict m)"
proof -
  have len: "length (hidden_layers m) = length (hidden_layers fresh)"
    using is_Network_layers(1) [OF assms(1)] is_Network_layers(1) [OF assms(2)] by simp
  have "list_all2 (\<lambda>l l'. shape (weight l) = shape (weight l') \<and> shape (bias l) = shape (bias l'))
          (hidden_layers m) (hidden_layers fresh)"
  proof (rule list_all2_all_nthI [OF len])
    fix j assume "j < length (hidden_layers m)"
    then have j: "j < length hidden" using is_Network_layers(1) [OF assms(2)] by simp
    show "shape (weight (hidden_layers m ! j)) = shape (weight (hidden_layers fresh ! j)) \<and>
          shape (bias (hidden_layers m ! j)) = shape (bias (hidden_layers fresh ! j))"
      using is_Network_layers(2) [OF assms(1) j] is_Network_layers(2) [OF assms(2) j]
      by (simp add: wf_linear_def)
  qed
  then have h: "map (\<lambda>kt. (fst kt, shape (snd kt))) (hidden_entries 0 (hidden_layers m))
       = map (\<lambda>kt. (fst kt, shape (snd kt))) (hidden_entries 0 (hidden_layers fresh))"
    by (rule shapes_hidden_entries)
  have "wf_linear (last hidden) output_size (output_layer fresh)"
    "wf_linear (last hidden) output_size (output_layer m)"
    using assms by (simp_all add: is_Network_def)
  then have o: "map (\<lambda>kt. (fst kt, shape (snd kt))) (layer_entries Output (output_layer m))
       = map (\<lambda>kt. (fst kt, shape (snd kt))) (layer_entries Output (output_layer fresh))"
    by (simp add: layer_entries_def wf_linear_def)
  show ?thesis
    by (simp add: architecture_matches_def recorded_shapes_def state_dict_def h o)
qed

lemma load_checkpoint_round_trip:
  assumes "is_Network input_size output_size hidden model"
  shows "load_checkpoint path (torch_save (checkpoint_dict input_size output_size model) path fs) init
           = Inr model"
proof -
  have ne: "hidden \<noteq> []" using assms by (simp add: is_Network_def)
  obtain fresh where fresh: "Network input_size output_size hidden init = Inr fresh"
    using ne by (simp add: Network_def)
  have nf: "is_Network input_size output_size hidden fresh"
    by (rule Network_is_Network [OF fresh])
  have hs: "map out_features (hidden_layers model) = hidden"
    by (rule is_Network_out_features [OF assms])
  have out: "snd (load_state_dict fresh (state_dict model))
      = Inr \<lparr>missing_keys = [], unexpected_keys = []\<rparr>"
    using load_state_dict_outcome [OF distinct_keys_state_dict, of fresh model]
      same_architecture_matches [OF nf assms] by simp
  have m: "fst (load_state_dict fresh (state_dict model)) = model"
    by (rule load_same_model [OF nf assms])
  have l: "load_state_dict fresh (state_dict model)
      = (model, Inr \<lparr>missing_keys = [], unexpected_keys = []\<rparr>)"
    using out m by (cases "load_state_dict fresh (state_dict model)") simp
  show ?thesis
    by (simp add: load_checkpoint_def torch_save_def torch_load_def checkpoint_dict_def ebind_def
        hs fresh l)
qed

text \<open>
  Between two networks, the state dict of one matches the other exactly when they were
  built with the same input size, output size and hidden sizes.
\<close>

lemma map_of_state_dict_weight_None:
  "length (hidden_layers m) \<le> k \<Longrightarrow> map_of (state_dict m) (HiddenLayers k Weight) = None"
  by (simp add: state_dict_def map_add_def map_of_hidden_entries_weight layer_entries_def)

lemma fst_layer_sizes:
  "hidden \<noteq> [] \<Longrightarrow> map fst (layer_sizes input_size hidden) = input_size # butlast hidden"
  by (simp add: layer_sizes_def)

lemma Network_architecture_matches_iff:
  assumes n1: "is_Network i1 o1 hs1 m1" and n2: "is_Network i2 o2 hs2 m2"
  shows "architecture_matches m1 (state_dict m2) \<longleftrightarrow> (i1 = i2 \<and> o1 = o2 \<and> hs1 = hs2)"
proof
  assume "i1 = i2 \<and> o1 = o2 \<and> hs1 = hs2"
  then show "architecture_matches m1 (state_dict m2)"
    using same_architecture_matches [OF n1, of m2] n2 by simp
next
  assume am: "architecture_matches m1 (state_dict m2)"
  have r: "fst ` set (state_dict m2) = fst ` set (state_dict m1) \<and>
      (\<forall>kp\<in>set (state_dict m1). \<forall>t. map_of (state_dict m2) (fst kp) = Some t
          \<longrightarrow> shape t = shape (snd kp))"
    using am recorded_eq_iff [OF distinct_keys_state_dict [of m2] distinct_keys_state_dict [of m1],
        where f = shape]
    unfolding architecture_matches_def recorded_shapes_def set_map by blast
  then have keys: "fst ` set (state_dict m2) = fst ` set (state_dict m1)" by blast
  have sh: "shape t = shape p" if "map_of (state_dict m1) k = Some p" "map_of (state_dict m2) k = Some t"
    for k p t
  proof -
    have "(k, p) \<in> set (state_dict m1)" using that(1) by (rule map_of_SomeD)
    then show ?thesis using r that(2) by fastforce
  qed
  have dom: "(map_of (state_dict m1) k = None) = (map_of (state_dict m2) k = None)" for k
    using keys by (simp add: map_of_eq_None_iff)
  have ne1: "hs1 \<noteq> []" and ne2: "hs2 \<noteq> []" using n1 n2 by (simp_all add: is_Network_def)
  have len1: "length (hidden_layers m1) = length hs1" by (rule is_Network_layers(1) [OF n1])
  have len2: "length (hidden_layers m2) = length hs2" by (rule is_Network_layers(1) [OF n2])
  have len: "length hs1 = length hs2"
  proof (rule ccontr)
    assume "length hs1 \<noteq> length hs2"
    then consider "length hs1 < length hs2" | "length hs2 < length hs1" by linarith
    then show False
    proof cases
      case 1
      have "map_of (state_dict m1) (HiddenLayers (length hs1) Weight) = None"
        by (rule map_of_state_dict_weight_None) (simp add: len1)
      moreover have "map_of (state_dict m2) (HiddenLayers (length hs1) Weight) \<noteq> None"
        using map_of_state_dict_weight [of "length hs1" m2] 1 len2 by simp
      ultimately show False by (simp add: dom)
    next
      case 2
      have "map_of (state_dict m2) (HiddenLayers (length hs2) Weight) = None"
        by (rule map_of_state_dict_weight_None) (simp add: len2)
      moreover have "map_of (state_dict m1) (HiddenLayers (length hs2) Weight) \<noteq> None"
        using map_of_state_dict_weight [of "length hs2" m1] 2 len1 by simp
      ultimately show False by (simp add: dom)
    qed
  qed
  have sizes: "layer_sizes i1 hs1 = layer_sizes i2 hs2"
  proof (rule nth_equalityI)
    show "length (layer_sizes i1 hs1) = length (layer_sizes i2 hs2)"
      using len ne1 ne2 by (simp add: length_layer_sizes)
  next
    fix j assume "j < length (layer_sizes i1 hs1)"
    then have j1: "j < length hs1" using ne1 by (simp add: length_layer_sizes)
    then have j2: "j < length hs2" using len by simp
    have w1: "wf_linear (fst (layer_sizes i1 hs1 ! j)) (snd (layer_sizes i1 hs1 ! j)) (hidden_layers m1 ! j)"
      by (rule is_Network_layers(2) [OF n1 j1])
    have w2: "wf_linear (fst (layer_sizes i2 hs2 ! j)) (snd (layer_sizes i2 hs2 ! j)) (hidden_layers m2 ! j)"
      by (rule is_Network_layers(2) [OF n2 j2])
    have "shape (weight (hidden_layers m2 ! j)) = shape (weight (hidden_layers m1 ! j))"
      by (rule sh [OF map_of_state_dict_weight map_of_state_dict_weight]) (simp_all add: len1 len2 j1 j2)
    then show "layer_sizes i1 hs1 ! j = layer_sizes i2 hs2 ! j"
      using w1 w2 by (simp add: wf_linear_def prod_eq_iff)
  qed
  have hs: "hs1 = hs2"
    using arg_cong [OF sizes, of "map snd"] ne1 ne2 by (simp add: snd_layer_sizes)
  have "i1 # butlast hs1 = i2 # butlast hs2"
    using arg_cong [OF sizes, of "map fst"] ne1 ne2 by (simp add: fst_layer_sizes)
  then have i: "i1 = i2" by simp
  have "shape (bias (output_layer m2)) = shape (bias (output_layer m1))"
    by (rule sh [OF map_of_state_dict_output(2) map_of_state_dict_output(2)])
  then have "o1 = o2" using n1 n2 by (simp add: is_Network_def wf_linear_def)
  with i hs show "i1 = i2 \<and> o1 = o2 \<and> hs1 = hs2" by simp
qed

text \<open>
  The networks of the notebook are what \<open>Network\<close> builds, and loading the state dict of
  the network with hidden layers 512, 256, 128 into the one with hidden layers 400, 200,
  100 raises, by evaluation of \<open>load_state_dict\<close>.
\<close>

lemma Network_512: "Network 784 10 [512, 256, 128] (\<lambda>k j. 1) = Inr network_512"
  by (simp add: Network_def layer_sizes_def network_512_def)

lemma Network_400: "Network 784 10 [400, 200, 100] (\<lambda>k j. 0) = Inr network_400"
  by (simp add: Network_def layer_sizes_def network_400_def)

lemma Network_fresh_512: "Network 784 10 [512, 256, 128] (\<lambda>k j. 0) = Inr fresh_network_512"
  by (simp add: Network_def layer_sizes_def fresh_network_512_def)

lemma load_mismatch_example:
  "snd (load_state_dict network_400 (state_dict network_512)) = Inl RuntimeError"
  by (simp add: load_state_dict_def size_mismatches_def state_dict_def layer_entries_def
      network_400_def network_512_def Linear_def Let_def)

lemma not_matches_400_512: "\<not> architecture_matches network_400 (state_dict network_512)"
proof -
  have "(HiddenLayers 0 Weight, [512, 784]) \<in> recorded_shapes (state_dict network_512)"
    by (simp add: recorded_shapes_def state_dict_def layer_entries_def network_512_def Linear_def)
  moreover have "(HiddenLayers 0 Weight, [512, 784]) \<notin> recorded_shapes (state_dict network_400)"
    by (simp add: recorded_shapes_def state_dict_def layer_entries_def network_400_def Linear_def)
  ultimately show ?thesis by (auto simp: architecture_matches_def)
qed

lemma matches_fresh_512: "architecture_matches fresh_network_512 (state_dict network_512)"
  by (rule same_architecture_matches [OF Network_is_Network [OF Network_fresh_512]
        Network_is_Network [OF Network_512]])

text \<open>The cell that writes the sizes 784 and 10 serves every network of these sizes.\<close>

lemma checkpoint_cell_round_trip:
  assumes "is_Network 784 10 hidden model"
  shows "load_checkpoint path (torch_save (checkpoint model) path fs) init = Inr model"
  unfolding checkpoint_def by (rule load_checkpoint_round_trip [OF assms])

text \<open>
  Claim C1. For every network as \<open>fc_model.Network(input_size, output_size, hidden)\<close> builds
  it (whatever values training gave its parameters), saving the dictionary with the keys
  \<open>'input_size'\<close>, \<open>'output_size'\<close>, \<open>'hidden_layers'\<close> and \<open>'state_dict'\<close> of that model to a
  file and calling \<open>load_checkpoint\<close> on the file returns the model itself: the same layer
  sizes and the same weight and bias tensors, whatever the random initial values of the
  rebuilt network.
\<close>

theorem checkpoint_round_trip:
  assumes "is_Network input_size output_size hidden model"
  shows "load_checkpoint path (torch_save (checkpoint_dict input_size output_size model) path fs) init
           = Inr model"
  using assms by (rule load_checkpoint_round_trip)

theorem checkpoint_round_trip_witness:
  "Network 784 10 [512, 256, 128] (\<lambda>k j. 1) = Inr network_512 \<and>
   is_Network 784 10 [512, 256, 128] network_512 \<and>
   load_checkpoint ''checkpoint.pth''
       (torch_save (checkpoint network_512) ''checkpoint.pth'' Map.empty) (\<lambda>k j. 0)
     = Inr network_512"
  using checkpoint_round_trip [OF Network_is_Network [OF Network_512], of "''checkpoint.pth''" Map.empty "\<lambda>k j. 0"]
    Network_512 Network_is_Network [OF Network_512]
  by (simp add: checkpoint_def)

text \<open>
  Claim C2, as stated: \<open>model.load_state_dict(state_dict)\<close> fails exactly when the
  architecture of the model does not match the shapes recorded in the state dict, and this
  is the only error path of the program. The second half fails: \<open>load_checkpoint\<close> raises
  \<open>FileNotFoundError\<close> when there is no file at the path, and \<open>KeyError\<close> when the file holds
  the bare state dict that the notebook's first \<open>torch.save\<close> writes to the same path; and
  the training loop raises \<open>ZeroDivisionError\<close> on an empty loader. None of them comes from
  \<open>load_state_dict\<close>.
\<close>

theorem load_state_dict_not_only_error_path:
  "load_checkpoint ''checkpoint.pth'' Map.empty zero_init = Inl FileNotFoundError \<and>
   load_checkpoint ''checkpoint.pth''
       (torch_save (PyStateDict (state_dict network_512)) ''checkpoint.pth'' Map.empty) zero_init
     = Inl (KeyError ''input_size'') \<and>
   snd (train_epoch idle_framework start_state []) = Inl ZeroDivisionError"
  by (simp add: load_checkpoint_def torch_load_def torch_save_def ebind_def train_epoch_def
      fdiv_def)


text \<open>
  Claim C2, amended: a shape mismatch is the only error path of this call.
  \<open>model.load_state_dict(state_dict)\<close> raises \<open>RuntimeError\<close> exactly when the
  shapes the state dict records under its keys are not the shapes of the model's
  parameters under the same keys, and otherwise returns with no missing and no unexpected
  keys; it has no other outcome. Between two networks built by \<open>fc_model.Network\<close> this
  means: it raises exactly when their input size, output size or hidden sizes differ.
  The witness is the notebook's example: the state dict of the network with hidden layers
  512, 256, 128 raises in the network with hidden layers 400, 200, 100 and loads into a
  network of its own architecture.
\<close>

theorem load_state_dict_fails_exactly_on_mismatch:
  assumes "distinct (map fst sd)"
    and "is_Network i1 o1 hs1 m1" and "is_Network i2 o2 hs2 m2"
  shows "snd (load_state_dict m sd) =
           (if architecture_matches m sd
            then Inr \<lparr>missing_keys = [], unexpected_keys = []\<rparr>
            else Inl RuntimeError) \<and>
         snd (load_state_dict m1 (state_dict m2)) =
           (if i1 = i2 \<and> o1 = o2 \<and> hs1 = hs2
            then Inr \<lparr>missing_keys = [], unexpected_keys = []\<rparr>
            else Inl RuntimeError)"
  using load_state_dict_outcome [OF assms(1), of m]
    load_state_dict_outcome [OF distinct_keys_state_dict, of m1 m2]
    Network_architecture_matches_iff [OF assms(2) assms(3)]
  by simp

theorem load_state_dict_fails_exactly_on_mismatch_witness:
  "distinct (map fst (state_dict network_512)) \<and>
   is_Network 784 10 [400, 200, 100] network_400 \<and>
   is_Network 784 10 [512, 256, 128] network_512 \<and>
   is_Network 784 10 [512, 256, 128] fresh_network_512 \<and>
   snd (load_state_dict network_400 (state_dict network_512)) = Inl RuntimeError \<and>
   snd (load_state_dict fresh_network_512 (state_dict network_512))
     = Inr \<lparr>missing_keys = [], unexpected_keys = []\<rparr>"
proof -
  have d: "distinct (map fst (state_dict network_512))" by (rule distinct_keys_state_dict)
  have n4: "is_Network 784 10 [400, 200, 100] network_400"
    by (rule Network_is_Network [OF Network_400])
  have n5: "is_Network 784 10 [512, 256, 128] network_512"
    by (rule Network_is_Network [OF Network_512])
  have nf: "is_Network 784 10 [512, 256, 128] fresh_network_512"
    by (rule Network_is_Network [OF Network_fresh_512])
  have a: "snd (load_state_dict network_400 (state_dict network_512)) = Inl RuntimeError"
    using load_state_dict_fails_exactly_on_mismatch [OF d n4 n5, THEN conjunct2] by simp
  have b: "snd (load_state_dict fresh_network_512 (state_dict network_512))
     = Inr \<lparr>missing_keys = [], unexpected_keys = []\<rparr>"
    using load_state_dict_fails_exactly_on_mismatch [OF d nf n5, THEN conjunct2] by simp
  show ?thesis
    using a b d n4 n5 nf by simp
qed

end
